theory Spec2Isabelle
  imports Complex_Main
begin

section \<open>Values, errors and the NumPy primitives the forecasters use\<close>

text \<open>
  A Python float is either a finite number or \<open>nan\<close>; arithmetic with \<open>nan\<close>
  gives \<open>nan\<close>. Rounding is not modelled: finite values are reals.
\<close>

datatype pyfloat = NaN | Num real

fun num_add :: "pyfloat \<Rightarrow> pyfloat \<Rightarrow> pyfloat" where
  "num_add (Num a) (Num b) = Num (a + b)"
| "num_add _ _ = NaN"

fun num_sub :: "pyfloat \<Rightarrow> pyfloat \<Rightarrow> pyfloat" where
  "num_sub (Num a) (Num b) = Num (a - b)"
| "num_sub _ _ = NaN"

datatype error =
  ValueError | IndexError | KeyError | TypeError | AttributeError | NameError | NotFittedError

text \<open>\<open>xs[i]\<close>, where \<open>-len \<le> i < 0\<close> addresses position \<open>len + i\<close>.\<close>

definition py_index :: "'a list \<Rightarrow> int \<Rightarrow> error + 'a" where
  "py_index xs i =
     (if 0 \<le> i \<and> i < int (length xs) then Inr (xs ! nat i)
      else if i < 0 \<and> - int (length xs) \<le> i then Inr (xs ! nat (int (length xs) + i))
      else Inl IndexError)"

text \<open>\<open>xs[idx]\<close> for an integer array \<open>idx\<close> (NumPy fancy indexing).\<close>

fun py_take :: "'a list \<Rightarrow> int list \<Rightarrow> error + 'a list" where
  "py_take xs [] = Inr []"
| "py_take xs (i # is) =
     (case py_index xs i of
        Inl e \<Rightarrow> Inl e
      | Inr x \<Rightarrow> (case py_take xs is of Inl e \<Rightarrow> Inl e | Inr r \<Rightarrow> Inr (x # r)))"

text \<open>\<open>xs[i] = v\<close> with the same index convention.\<close>

definition py_set :: "'a list \<Rightarrow> int \<Rightarrow> 'a \<Rightarrow> error + 'a list" where
  "py_set xs i v =
     (if 0 \<le> i \<and> i < int (length xs) then Inr (xs[nat i := v])
      else if i < 0 \<and> - int (length xs) \<le> i then Inr (xs[nat (int (length xs) + i) := v])
      else Inl IndexError)"

text \<open>Slices never raise: both ends are moved into \<open>[0, len]\<close>.\<close>

definition py_bound :: "nat \<Rightarrow> int \<Rightarrow> nat" where
  "py_bound n i = (if i < 0 then nat (int n + i) else min n (nat i))"

definition py_slice :: "'a list \<Rightarrow> int \<Rightarrow> int \<Rightarrow> 'a list" where
  "py_slice xs a b = take (py_bound (length xs) b - py_bound (length xs) a)
                          (drop (py_bound (length xs) a) xs)"

definition py_slice_from :: "'a list \<Rightarrow> int \<Rightarrow> 'a list" where
  "py_slice_from xs a = drop (py_bound (length xs) a) xs"

definition py_slice_to :: "'a list \<Rightarrow> int \<Rightarrow> 'a list" where
  "py_slice_to xs b = take (py_bound (length xs) b) xs"

text \<open>
  A two-dimensional array is the list of its rows. \<open>X[:, i] = v\<close> needs \<open>v\<close> to
  have one entry per row, or a single entry, which NumPy broadcasts.
\<close>

definition column :: "'a list list \<Rightarrow> nat \<Rightarrow> 'a list" where
  "column X i = map (\<lambda>r. r ! i) X"

definition set_column :: "'a list list \<Rightarrow> nat \<Rightarrow> 'a list \<Rightarrow> error + 'a list list" where
  "set_column X i v =
     (if length v = length X then Inr (map (\<lambda>(r, x). r[i := x]) (zip X v))
      else if length v = 1 then Inr (map (\<lambda>r. r[i := hd v]) X)
      else Inl ValueError)"

text \<open>
  \<open>pd.Series(data, index)\<close> and \<open>pd.DataFrame(data, index)\<close> raise when the data and
  the index differ in length.
\<close>

definition with_index :: "nat \<Rightarrow> 'a list \<Rightarrow> error + 'a list" where
  "with_index n_index data = (if length data = n_index then Inr data else Inl ValueError)"

section \<open>ForecasterAutoreg: state\<close>

text \<open>
  Modelled from the spec: \<open>TimeSeriesDifferentiator\<close> (\<open>skforecast.preprocessing\<close>) is not
  among the sources. The spec gives its capability: \<open>fit_transform(window)\<close> is stateful
  and establishes an anchor; \<open>inverse_transform_next_window\<close> is a cumulative-sum
  reconstruction anchored to the last fit window. The state is the anchor: for each
  differencing pass, the last value of the series that pass was applied to. The differenced
  series keeps the length of its input, the first \<open>order\<close> positions being \<open>nan\<close>
  (\<open>create_train_X_y\<close> drops exactly these rows with \<open>iloc[differentiation:]\<close>).
\<close>

record differentiator_state =
  order :: nat
  last_values :: "pyfloat list"

fun diff1 :: "pyfloat list \<Rightarrow> pyfloat list" where
  "diff1 (a # b # xs) = num_sub b a # diff1 (b # xs)"
| "diff1 _ = []"

fun diff_passes :: "nat \<Rightarrow> pyfloat list \<Rightarrow> pyfloat list \<times> pyfloat list" where
  "diff_passes 0 xs = (xs, [])"
| "diff_passes (Suc k) xs =
     (let (d, anchors) = diff_passes k (diff1 xs)
      in (d, (if xs = [] then NaN else last xs) # anchors))"

definition fit_transform :: "differentiator_state \<Rightarrow> pyfloat list \<Rightarrow> pyfloat list \<times> differentiator_state" where
  "fit_transform d xs =
     (let (dx, anchors) = diff_passes (order d) xs
      in (replicate (order d) NaN @ dx, d\<lparr>last_values := anchors\<rparr>))"

fun cumsum_from :: "pyfloat \<Rightarrow> pyfloat list \<Rightarrow> pyfloat list" where
  "cumsum_from a [] = []"
| "cumsum_from a (x # xs) = num_add a x # cumsum_from (num_add a x) xs"

fun undo_passes :: "pyfloat list \<Rightarrow> pyfloat list \<Rightarrow> pyfloat list" where
  "undo_passes [] xs = xs"
| "undo_passes (a # anchors) xs = cumsum_from a (undo_passes anchors xs)"

definition inverse_transform_next_window :: "differentiator_state \<Rightarrow> pyfloat list \<Rightarrow> pyfloat list" where
  "inverse_transform_next_window d xs = undo_passes (last_values d) xs"

text \<open>
  The collaborators outside the sources are parameters. A scikit-learn transformer is a
  state of type \<open>'t\<close> with its methods, on a series and on the exogenous frame; NumPy's
  \<open>Generator\<close> is a state of type \<open>'g\<close> that yields one bounded index at a time;
  \<open>KBinsDiscretizer\<close> is its fitted edges and its ordinal encoding; the estimator's
  \<open>fit\<close> returns the fitted \<open>predict\<close>; \<open>check_y\<close>, \<open>check_exog\<close> and
  \<open>check_predict_input\<close> (\<open>skforecast.utils\<close>) either raise or return, the last with
  the arguments of the recursive and of the direct forecaster; \<open>exog_to_direct_numpy\<close>
  (\<open>skforecast.utils\<close>) is the first component of what it returns, or what it raises.
\<close>

record ('t, 'g) collaborators =
  tr_fit_transform :: "'t \<Rightarrow> pyfloat list \<Rightarrow> pyfloat list \<times> 't"
  tr_transform :: "'t \<Rightarrow> pyfloat list \<Rightarrow> pyfloat list"
  tr_inverse_transform :: "'t \<Rightarrow> pyfloat list \<Rightarrow> pyfloat list"
  tr_fit_transform_exog :: "'t \<Rightarrow> pyfloat list list \<Rightarrow> pyfloat list list \<times> 't"
  tr_transform_exog :: "'t \<Rightarrow> pyfloat list list \<Rightarrow> pyfloat list list"
  default_rng :: "int \<Rightarrow> 'g"
  rng_next :: "'g \<Rightarrow> nat \<Rightarrow> nat \<times> 'g"
  kbins_fit :: "pyfloat list \<Rightarrow> real list"
  kbins_transform :: "real list \<Rightarrow> pyfloat \<Rightarrow> nat"
  regressor_fit :: "pyfloat list list \<Rightarrow> pyfloat list \<Rightarrow> (pyfloat list \<Rightarrow> pyfloat)"
  check_y :: "pyfloat list \<Rightarrow> error option"
  check_exog :: "pyfloat list list \<Rightarrow> error option"
  check_predict_input ::
    "nat \<Rightarrow> bool \<Rightarrow> bool \<Rightarrow> int \<Rightarrow> pyfloat list option \<Rightarrow> pyfloat list list option \<Rightarrow> error option"
  check_predict_input_direct ::
    "nat list \<Rightarrow> bool \<Rightarrow> bool \<Rightarrow> int \<Rightarrow> (string \<rightharpoonup> pyfloat list) option \<Rightarrow>
     pyfloat list list option \<Rightarrow> nat \<Rightarrow> string list option \<Rightarrow> error option"
  exog_to_direct_numpy :: "pyfloat list list \<Rightarrow> nat \<Rightarrow> error + pyfloat list"

text \<open>
  The fields of \<open>ForecasterAutoreg\<close> that fitting and prediction read or write. The fitted
  regressor is its \<open>predict\<close> on one row. A \<open>dict\<close> of residuals keeps its insertion
  order, which \<open>np.concatenate(list(d.values()))\<close> depends on, so it is an association
  list. An attribute whose name ends in an underscore in the source (\<open>last_window_\<close>)
  ends in \<open>_attr\<close> here. Series and frames are their values in positional order; index metadata
  (\<open>index_type_\<close>, \<open>index_freq_\<close>, \<open>training_range_\<close>, the column names) only
  reaches \<open>check_predict_input\<close> and the labels of the returned frames.
\<close>

record 't forecaster =
  regressor :: "pyfloat list \<Rightarrow> pyfloat"
  lags :: "int list"
  max_lag :: int
  window_size :: int
  window_size_diff :: int
  transformer_y :: "'t option"
  transformer_exog :: "'t option"
  differentiation :: "nat option"
  differentiator :: "differentiator_state option"
  last_window_attr :: "pyfloat list option"
  in_sample_residuals_attr :: "pyfloat list option"
  out_sample_residuals_attr :: "pyfloat list option"
  in_sample_residuals_by_bin_attr :: "(nat \<times> pyfloat list) list option"
  out_sample_residuals_by_bin_attr :: "(nat \<times> pyfloat list) list option"
  binner :: "real list option"
  binner_intervals :: "(nat \<times> real \<times> real option) list option"
  exog_in_attr :: bool
  is_fitted :: bool

text \<open>
  What \<open>__init__\<close> establishes: \<open>initialize_lags\<close> (\<open>skforecast.utils\<close>) returns a
  non-empty array of integers \<open>\<ge> 1\<close>, \<open>max_lag\<close> and \<open>window_size\<close> are its maximum,
  and \<open>window_size_diff\<close> adds the order of differentiation, which is at least 1.
\<close>

definition init_ok :: "'t forecaster \<Rightarrow> bool" where
  "init_ok s \<longleftrightarrow>
     lags s \<noteq> [] \<and> (\<forall>l \<in> set (lags s). 1 \<le> l) \<and>
     max_lag s = Max (set (lags s)) \<and> window_size s = max_lag s \<and>
     (case differentiation s of
        None \<Rightarrow> window_size_diff s = max_lag s
      | Some d \<Rightarrow> 1 \<le> d \<and> window_size_diff s = max_lag s + int d \<and>
                 (case differentiator s of None \<Rightarrow> False | Some ds \<Rightarrow> order ds = d))"

section \<open>Training matrices\<close>

text \<open>\<open>_create_lags\<close>: column \<open>i\<close> of \<open>X_data\<close> is \<open>y[max_lag - lag : -lag]\<close>.\<close>

fun fill_lag_columns :: "pyfloat list \<Rightarrow> int \<Rightarrow> pyfloat list list \<Rightarrow> nat \<Rightarrow> int list \<Rightarrow> error + pyfloat list list" where
  "fill_lag_columns y m X i [] = Inr X"
| "fill_lag_columns y m X i (lag # rest) =
     (case set_column X i (py_slice y (m - lag) (- lag)) of
        Inl e \<Rightarrow> Inl e
      | Inr X' \<Rightarrow> fill_lag_columns y m X' (Suc i) rest)"

definition create_lags :: "'t forecaster \<Rightarrow> pyfloat list \<Rightarrow> error + (pyfloat list list \<times> pyfloat list)" where
  "create_lags s y =
     (let n_splits = int (length y) - max_lag s
      in if n_splits \<le> 0 then Inl ValueError
         else (case fill_lag_columns y (max_lag s)
                      (replicate (nat n_splits) (replicate (length (lags s)) NaN)) 0 (lags s) of
                 Inl e \<Rightarrow> Inl e
               | Inr X_data \<Rightarrow> Inr (X_data, py_slice_from y (max_lag s))))"

text \<open>
  Modelled from the spec: \<open>transform_dataframe\<close>, \<open>transform_numpy\<close> and
  \<open>transform_series\<close> (\<open>skforecast.utils\<close>) are not among the sources. They apply the
  transformer capability (\<open>fit\<close>, \<open>transform\<close>, \<open>inverse_transform\<close>) to the values
  and return them unchanged when there is no transformer. The frame and series variants
  put the result back under the index of their input, which raises when the transformer
  changed the number of rows.
\<close>

definition transform_dataframe ::
  "('t, 'g) collaborators \<Rightarrow> 't option \<Rightarrow> bool \<Rightarrow> pyfloat list \<Rightarrow> error + (pyfloat list \<times> 't option)" where
  "transform_dataframe ext tr fit xs =
     (case tr of
        None \<Rightarrow> Inr (xs, None)
      | Some t \<Rightarrow>
          (let (out, t') = (if fit then tr_fit_transform ext t xs else (tr_transform ext t xs, t))
           in if length out = length xs then Inr (out, Some t') else Inl ValueError))"

definition transform_dataframe_exog ::
  "('t, 'g) collaborators \<Rightarrow> 't option \<Rightarrow> bool \<Rightarrow> pyfloat list list \<Rightarrow> error + (pyfloat list list \<times> 't option)" where
  "transform_dataframe_exog ext tr fit E =
     (case tr of
        None \<Rightarrow> Inr (E, None)
      | Some t \<Rightarrow>
          (let (out, t') = (if fit then tr_fit_transform_exog ext t E else (tr_transform_exog ext t E, t))
           in if length out = length E then Inr (out, Some t') else Inl ValueError))"

definition transform_numpy ::
  "('t, 'g) collaborators \<Rightarrow> 't option \<Rightarrow> bool \<Rightarrow> pyfloat list \<Rightarrow> pyfloat list" where
  "transform_numpy ext tr inverse_transform xs =
     (case tr of
        None \<Rightarrow> xs
      | Some t \<Rightarrow> if inverse_transform then tr_inverse_transform ext t xs else tr_transform ext t xs)"

definition transform_series ::
  "('t, 'g) collaborators \<Rightarrow> 't option \<Rightarrow> bool \<Rightarrow> pyfloat list \<Rightarrow> error + pyfloat list" where
  "transform_series ext tr inverse_transform xs =
     (case tr of
        None \<Rightarrow> Inr xs
      | Some t \<Rightarrow>
          (let out = (if inverse_transform then tr_inverse_transform ext t xs else tr_transform ext t xs)
           in if length out = length xs then Inr out else Inl ValueError))"

text \<open>
  \<open>create_train_X_y\<close>. The method writes to \<open>self\<close> (an unfitted forecaster fits its
  transformers and its differentiator here), so it returns the state next to its result,
  also when it raises. The lag matrix and the target take the index \<open>y_index[max_lag:]\<close>;
  \<open>pd.concat(axis=1)\<close> of two frames with the same index puts their rows side by side.
\<close>

definition differentiate_train ::
  "'t forecaster \<Rightarrow> pyfloat list \<Rightarrow> (error + pyfloat list) \<times> 't forecaster" where
  "differentiate_train s y_values =
     (case differentiation s of
        None \<Rightarrow> (Inr y_values, s)
      | Some d \<Rightarrow>
          (case differentiator s of
             None \<Rightarrow> (Inl AttributeError, s)
           | Some ds \<Rightarrow>
               if \<not> is_fitted s
               then (Inr (fst (fit_transform ds y_values)),
                     s\<lparr>differentiator := Some (snd (fit_transform ds y_values))\<rparr>)
               else (Inr (fst (fit_transform ds y_values)), s)))"

definition exog_train ::
  "('t, 'g) collaborators \<Rightarrow> 't forecaster \<Rightarrow> nat \<Rightarrow> pyfloat list list option \<Rightarrow>
   (error + pyfloat list list option) \<times> 't forecaster" where
  "exog_train ext s n exog =
     (case exog of
        None \<Rightarrow> (Inr None, s)
      | Some E \<Rightarrow>
          (case check_exog ext E of
             Some e \<Rightarrow> (Inl e, s)
           | None \<Rightarrow>
               if length E \<noteq> n then (Inl ValueError, s)
               else (case transform_dataframe_exog ext (transformer_exog s) (\<not> is_fitted s) E of
                       Inl e \<Rightarrow> (Inl e, s)
                     | Inr (E', te) \<Rightarrow> (Inr (Some E'), s\<lparr>transformer_exog := te\<rparr>))))"

definition diff_order :: "'t forecaster \<Rightarrow> nat" where
  "diff_order s = (case differentiation s of None \<Rightarrow> 0 | Some d \<Rightarrow> d)"

definition create_train_X_y ::
  "('t, 'g) collaborators \<Rightarrow> 't forecaster \<Rightarrow> pyfloat list \<Rightarrow> pyfloat list list option \<Rightarrow>
   (error + (pyfloat list list \<times> pyfloat list)) \<times> 't forecaster" where
  "create_train_X_y ext s y exog =
     (case check_y ext y of
        Some e \<Rightarrow> (Inl e, s)
      | None \<Rightarrow>
     (case transform_dataframe ext (transformer_y s) (\<not> is_fitted s) y of
        Inl e \<Rightarrow> (Inl e, s)
      | Inr (y_transformed, ty) \<Rightarrow>
     (case differentiate_train (s\<lparr>transformer_y := ty\<rparr>) y_transformed of
        (Inl e, s2) \<Rightarrow> (Inl e, s2)
      | (Inr y_values, s2) \<Rightarrow>
     (case exog_train ext s2 (length y) exog of
        (Inl e, s3) \<Rightarrow> (Inl e, s3)
      | (Inr exog', s3) \<Rightarrow>
     (case create_lags s3 y_values of
        Inl e \<Rightarrow> (Inl e, s3)
      | Inr (X_data, y_data) \<Rightarrow>
     (case with_index (length (py_slice_from y (max_lag s3))) X_data of
        Inl e \<Rightarrow> (Inl e, s3)
      | Inr X_lags \<Rightarrow>
     (case with_index (length (py_slice_from y (max_lag s3))) y_data of
        Inl e \<Rightarrow> (Inl e, s3)
      | Inr y_train \<Rightarrow>
          (let X_train =
                 (case exog' of
                    None \<Rightarrow> X_lags
                  | Some E' \<Rightarrow> map (\<lambda>(r, e). r @ e) (zip X_lags (py_slice_from E' (max_lag s3))));
               d = (case differentiation s3 of None \<Rightarrow> 0 | Some d \<Rightarrow> int d)
           in (Inr (py_slice_from X_train d, py_slice_from y_train d), s3)))))))))"

section \<open>Residual pools\<close>

text \<open>
  \<open>rng.choice(a, size, replace)\<close>: each element is \<open>a[j]\<close> for an index \<open>j\<close> the
  generator yields for the current population; without replacement the element leaves the
  population. NumPy raises on an empty population and on a sample without replacement
  larger than the population.
\<close>

fun choice_replace :: "('t, 'g) collaborators \<Rightarrow> 'g \<Rightarrow> 'a list \<Rightarrow> nat \<Rightarrow> 'a list \<times> 'g" where
  "choice_replace ext g a 0 = ([], g)"
| "choice_replace ext g a (Suc k) =
     (let (j, g1) = rng_next ext g (length a);
          (r, g2) = choice_replace ext g1 a k
      in (a ! (j mod length a) # r, g2))"

fun choice_no_replace :: "('t, 'g) collaborators \<Rightarrow> 'g \<Rightarrow> 'a list \<Rightarrow> nat \<Rightarrow> 'a list \<times> 'g" where
  "choice_no_replace ext g a 0 = ([], g)"
| "choice_no_replace ext g a (Suc k) =
     (let (j, g1) = rng_next ext g (length a);
          p = j mod length a;
          (r, g2) = choice_no_replace ext g1 (take p a @ drop (Suc p) a) k
      in (a ! p # r, g2))"

definition rng_choice ::
  "('t, 'g) collaborators \<Rightarrow> 'g \<Rightarrow> 'a list \<Rightarrow> nat \<Rightarrow> bool \<Rightarrow> error + ('a list \<times> 'g)" where
  "rng_choice ext g a k replace =
     (if a = [] \<and> 0 < k then Inl ValueError
      else if \<not> replace \<and> length a < k then Inl ValueError
      else Inr (if replace then choice_replace ext g a k else choice_no_replace ext g a k))"

text \<open>
  \<open>data.groupby('bin')[col].apply(np.array).to_dict()\<close>: the keys are the bins that
  occur, in ascending order, each with its values in their original order.
\<close>

definition groupby_bin :: "(nat \<times> 'a) list \<Rightarrow> (nat \<times> 'a list) list" where
  "groupby_bin data =
     map (\<lambda>k. (k, map snd (filter (\<lambda>p. fst p = k) data))) (sort (remdups (map fst data)))"

definition np_concatenate :: "'a list list \<Rightarrow> error + 'a list" where
  "np_concatenate arrays = (if arrays = [] then Inl ValueError else Inr (concat arrays))"

text \<open>\<open>d[k] = v\<close> on a \<open>dict\<close>: a present key keeps its position, a new key goes last.\<close>

fun dict_set :: "('k \<times> 'v) list \<Rightarrow> 'k \<Rightarrow> 'v \<Rightarrow> ('k \<times> 'v) list" where
  "dict_set [] k v = [(k, v)]"
| "dict_set ((k', v') # d) k v = (if k' = k then (k, v) # d else (k', v') # dict_set d k v)"

text \<open>
  The loop that keeps at most 200 residuals per bin; each bin draws from a generator
  seeded anew.
\<close>

fun cap_bins ::
  "('t, 'g) collaborators \<Rightarrow> int \<Rightarrow> (nat \<times> pyfloat list) list \<Rightarrow> error + (nat \<times> pyfloat list) list" where
  "cap_bins ext seed [] = Inr []"
| "cap_bins ext seed ((k, v) # d) =
     (case (if 200 < length v
            then (case rng_choice ext (default_rng ext seed) v 200 False of
                    Inl e \<Rightarrow> Inl e | Inr (sample, g) \<Rightarrow> Inr sample)
            else Inr v) of
        Inl e \<Rightarrow> Inl e
      | Inr v' \<Rightarrow> (case cap_bins ext seed d of Inl e \<Rightarrow> Inl e | Inr d' \<Rightarrow> Inr ((k, v') # d')))"

text \<open>
  \<open>_binning_in_sample_residuals\<close>. Both series carry the index of \<open>X_train\<close>, so the
  subtraction and the merge pair them position by position.
  \<open>KBinsDiscretizer.fit\<close> refuses an array without rows, before anything is assigned.
\<close>

definition bin_intervals :: "real list \<Rightarrow> (nat \<times> real \<times> real option) list" where
  "bin_intervals edges =
     map (\<lambda>i. (i, edges ! i, if i + 1 < length edges then Some (edges ! (i + 1)) else None))
         [0 ..< length edges - 1]"

definition binning_in_sample_residuals ::
  "('t, 'g) collaborators \<Rightarrow> 't forecaster \<Rightarrow> pyfloat list \<Rightarrow> pyfloat list \<Rightarrow> int \<Rightarrow>
   (error + unit) \<times> 't forecaster" where
  "binning_in_sample_residuals ext s y_true y_pred random_state =
     (if y_pred = [] then (Inl ValueError, s)
      else
     (let residuals = map (\<lambda>(t, p). num_sub t p) (zip y_true y_pred);
          edges = kbins_fit ext y_pred;
          bins = map (kbins_transform ext edges) y_pred;
          by_bin = groupby_bin (zip bins residuals);
          s1 = s\<lparr>binner := Some edges, in_sample_residuals_by_bin_attr := Some by_bin\<rparr>
      in case cap_bins ext random_state by_bin of
           Inl e \<Rightarrow> (Inl e, s1)
         | Inr capped \<Rightarrow>
             (let s2 = s1\<lparr>in_sample_residuals_by_bin_attr := Some capped\<rparr>
              in case np_concatenate (map snd capped) of
                   Inl e \<Rightarrow> (Inl e, s2)
                 | Inr flat \<Rightarrow>
                     (Inr (), s2\<lparr>in_sample_residuals_attr := Some flat,
                                 binner_intervals := Some (bin_intervals edges)\<rparr>))))"

text \<open>
  \<open>fit\<close>, for a forecaster without \<open>weight_func\<close> (\<open>create_sample_weights\<close> then
  returns \<open>None\<close>). The regressor predicts the training matrix row by row.
\<close>

definition fit ::
  "('t, 'g) collaborators \<Rightarrow> 't forecaster \<Rightarrow> pyfloat list \<Rightarrow> pyfloat list list option \<Rightarrow>
   bool \<Rightarrow> bool \<Rightarrow> (error + unit) \<times> 't forecaster" where
  "fit ext s y exog store_last_window store_in_sample_residuals =
     (let s0 = s\<lparr>last_window_attr := None, exog_in_attr := False,
                 in_sample_residuals_attr := None, is_fitted := False\<rparr>
      in case create_train_X_y ext s0 y exog of
           (Inl e, s1) \<Rightarrow> (Inl e, s1)
         | (Inr (X_train, y_train), s1) \<Rightarrow>
             (let s2 = s1\<lparr>regressor := regressor_fit ext X_train y_train,
                          is_fitted := True, exog_in_attr := (exog \<noteq> None)\<rparr>;
                  (r, s3) = (if store_in_sample_residuals
                             then binning_in_sample_residuals ext s2 y_train
                                    (map (regressor s2) X_train) 95123
                             else (Inr (), s2))
              in case r of
                   Inl e \<Rightarrow> (Inl e, s3)
                 | Inr u \<Rightarrow>
                     (Inr (), if store_last_window
                              then s3\<lparr>last_window_attr := Some (py_slice_from y (- window_size_diff s3))\<rparr>
                              else s3)))"

section \<open>Recursive prediction\<close>

text \<open>
  \<open>_create_predict_inputs\<close>. The window is transformed, then differenced by the
  forecaster's own differentiator, which is fitted on it. The column selection
  \<open>exog.loc[:, exog_names_in_]\<close> and \<open>check_exog_dtypes\<close> belong to the input checks;
  the prediction index has one label per step.
\<close>

definition check_out_sample_residuals :: "'t forecaster \<Rightarrow> bool \<Rightarrow> bool \<Rightarrow> bool \<Rightarrow> error option" where
  "check_out_sample_residuals s predict_boot in_sample_residuals binned_residuals =
     (if predict_boot \<and> \<not> in_sample_residuals
      then (if \<not> binned_residuals \<and> out_sample_residuals_attr s = None then Some ValueError
            else if binned_residuals \<and> out_sample_residuals_by_bin_attr s = None then Some ValueError
            else None)
      else None)"

definition differentiate_window ::
  "'t forecaster \<Rightarrow> pyfloat list \<Rightarrow> (error + pyfloat list) \<times> 't forecaster" where
  "differentiate_window s w =
     (case differentiation s of
        None \<Rightarrow> (Inr w, s)
      | Some d \<Rightarrow>
          (case differentiator s of
             None \<Rightarrow> (Inl AttributeError, s)
           | Some ds \<Rightarrow> (Inr (fst (fit_transform ds w)),
                         s\<lparr>differentiator := Some (snd (fit_transform ds w))\<rparr>)))"

definition exog_predict ::
  "('t, 'g) collaborators \<Rightarrow> 't forecaster \<Rightarrow> nat \<Rightarrow> pyfloat list list option \<Rightarrow>
   error + pyfloat list list option" where
  "exog_predict ext s steps exog =
     (case exog of
        None \<Rightarrow> Inr None
      | Some E \<Rightarrow>
          (case transform_dataframe_exog ext (transformer_exog s) False E of
             Inl e \<Rightarrow> Inl e
           | Inr (E', te) \<Rightarrow> Inr (Some (py_slice_to E' (int steps)))))"

definition create_predict_inputs ::
  "('t, 'g) collaborators \<Rightarrow> 't forecaster \<Rightarrow> nat \<Rightarrow> pyfloat list option \<Rightarrow>
   pyfloat list list option \<Rightarrow> bool \<Rightarrow> bool \<Rightarrow> bool \<Rightarrow> bool \<Rightarrow>
   (error + (pyfloat list \<times> pyfloat list list option)) \<times> 't forecaster" where
  "create_predict_inputs ext s steps last_window exog predict_boot in_sample_residuals
                         binned_residuals check_inputs =
     (let lw = (case last_window of None \<Rightarrow> last_window_attr s | Some w \<Rightarrow> Some w);
          checked =
            (if check_inputs
             then (case check_predict_input ext steps (is_fitted s) (exog_in_attr s)
                         (window_size_diff s) lw exog of
                     Some e \<Rightarrow> Some e
                   | None \<Rightarrow> check_out_sample_residuals s predict_boot in_sample_residuals
                               binned_residuals)
             else None)
      in case checked of
           Some e \<Rightarrow> (Inl e, s)
         | None \<Rightarrow>
             (case lw of
                None \<Rightarrow> (Inl AttributeError, s)
              | Some w \<Rightarrow>
                  (case differentiate_window s
                          (transform_numpy ext (transformer_y s) False
                             (py_slice_from w (- window_size_diff s))) of
                     (Inl e, s1) \<Rightarrow> (Inl e, s1)
                   | (Inr last_window_values, s1) \<Rightarrow>
                       (case exog_predict ext s1 steps exog of
                          Inl e \<Rightarrow> (Inl e, s1)
                        | Inr exog_values \<Rightarrow> (Inr (last_window_values, exog_values), s1)))))"

text \<open>
  \<open>_recursive_predict\<close>. Its \<open>residuals\<close> argument is absent, one residual per step
  (\<open>binned_residuals = False\<close>) or the pools by bin (\<open>binned_residuals = True\<close>); the
  constructor stands for the flag. The loop state is the buffer \<open>last_window\<close>, the array
  \<open>predictions\<close> and the generator.
\<close>

datatype residuals_arg =
  NoResiduals | StepResiduals "pyfloat list" | BinResiduals "(nat \<times> pyfloat list) list"

definition step_residual ::
  "('t, 'g) collaborators \<Rightarrow> 't forecaster \<Rightarrow> residuals_arg \<Rightarrow> 'g option \<Rightarrow> nat \<Rightarrow> pyfloat \<Rightarrow>
   error + (pyfloat \<times> 'g option)" where
  "step_residual ext s residuals rng i pred =
     (case residuals of
        NoResiduals \<Rightarrow> Inr (pred, rng)
      | StepResiduals r \<Rightarrow>
          (case py_index r (int i) of
             Inl e \<Rightarrow> Inl e
           | Inr x \<Rightarrow> Inr (num_add pred x, rng))
      | BinResiduals d \<Rightarrow>
          (case binner s of
             None \<Rightarrow> Inl NotFittedError
           | Some edges \<Rightarrow>
               (case map_of d (kbins_transform ext edges pred) of
                  None \<Rightarrow> Inl KeyError
                | Some pool \<Rightarrow>
                    (case rng of
                       None \<Rightarrow> Inl AttributeError
                     | Some g \<Rightarrow>
                         (case rng_choice ext g pool 1 True of
                            Inl e \<Rightarrow> Inl e
                          | Inr (x, g') \<Rightarrow> Inr (num_add pred (hd x), Some g'))))))"

definition lag_positions :: "'t forecaster \<Rightarrow> nat \<Rightarrow> nat \<Rightarrow> int list" where
  "lag_positions s steps i = map (\<lambda>lag. - lag - (int steps - int i)) (lags s)"

definition recursive_step ::
  "('t, 'g) collaborators \<Rightarrow> 't forecaster \<Rightarrow> nat \<Rightarrow> pyfloat list list option \<Rightarrow> residuals_arg \<Rightarrow>
   nat \<Rightarrow> pyfloat list \<times> pyfloat list \<times> 'g option \<Rightarrow>
   error + (pyfloat list \<times> pyfloat list \<times> 'g option)" where
  "recursive_step ext s steps exog residuals i st =
     (case st of (last_window, predictions, rng) \<Rightarrow>
      (case py_take last_window (lag_positions s steps i) of
         Inl e \<Rightarrow> Inl e
       | Inr X_lags \<Rightarrow>
      (case (case exog of
               None \<Rightarrow> Inr X_lags
             | Some E \<Rightarrow> (case py_index E (int i) of
                            Inl e \<Rightarrow> Inl e
                          | Inr row \<Rightarrow> Inr (X_lags @ row))) of
         Inl e \<Rightarrow> Inl e
       | Inr X \<Rightarrow>
      (case step_residual ext s residuals rng i (regressor s X) of
         Inl e \<Rightarrow> Inl e
       | Inr (pred, rng') \<Rightarrow>
      (case py_set last_window (- (int steps - int i)) pred of
         Inl e \<Rightarrow> Inl e
       | Inr last_window' \<Rightarrow> Inr (last_window', predictions[i := pred], rng'))))))"

fun recursive_loop ::
  "('t, 'g) collaborators \<Rightarrow> 't forecaster \<Rightarrow> nat \<Rightarrow> pyfloat list list option \<Rightarrow> residuals_arg \<Rightarrow>
   nat list \<Rightarrow> pyfloat list \<times> pyfloat list \<times> 'g option \<Rightarrow>
   error + (pyfloat list \<times> pyfloat list \<times> 'g option)" where
  "recursive_loop ext s steps exog residuals [] st = Inr st"
| "recursive_loop ext s steps exog residuals (i # rest) st =
     (case recursive_step ext s steps exog residuals i st of
        Inl e \<Rightarrow> Inl e
      | Inr st' \<Rightarrow> recursive_loop ext s steps exog residuals rest st')"

definition recursive_predict ::
  "('t, 'g) collaborators \<Rightarrow> 't forecaster \<Rightarrow> nat \<Rightarrow> pyfloat list \<Rightarrow> pyfloat list list option \<Rightarrow>
   residuals_arg \<Rightarrow> 'g option \<Rightarrow> error + (pyfloat list \<times> 'g option)" where
  "recursive_predict ext s steps last_window exog residuals rng =
     (case recursive_loop ext s steps exog residuals [0 ..< steps]
             (last_window @ replicate steps NaN, replicate steps NaN, rng) of
        Inl e \<Rightarrow> Inl e
      | Inr (last_window', predictions, rng') \<Rightarrow> Inr (predictions, rng'))"

definition undifferentiate :: "'t forecaster \<Rightarrow> pyfloat list \<Rightarrow> error + pyfloat list" where
  "undifferentiate s predictions =
     (case differentiation s of
        None \<Rightarrow> Inr predictions
      | Some d \<Rightarrow>
          (case differentiator s of
             None \<Rightarrow> Inl AttributeError
           | Some ds \<Rightarrow> Inr (inverse_transform_next_window ds predictions)))"

definition predict ::
  "('t, 'g) collaborators \<Rightarrow> 't forecaster \<Rightarrow> nat \<Rightarrow> pyfloat list option \<Rightarrow>
   pyfloat list list option \<Rightarrow> bool \<Rightarrow> (error + pyfloat list) \<times> 't forecaster" where
  "predict ext s steps last_window exog check_inputs =
     (case create_predict_inputs ext s steps last_window exog False True False check_inputs of
        (Inl e, s1) \<Rightarrow> (Inl e, s1)
      | (Inr (last_window_values, exog_values), s1) \<Rightarrow>
          (case recursive_predict ext s1 steps last_window_values exog_values NoResiduals None of
             Inl e \<Rightarrow> (Inl e, s1)
           | Inr (predictions, g) \<Rightarrow>
               (case undifferentiate s1 predictions of
                  Inl e \<Rightarrow> (Inl e, s1)
                | Inr levels \<Rightarrow>
                    (with_index steps (transform_numpy ext (transformer_y s1) True levels), s1))))"

section \<open>Bootstrapping\<close>

text \<open>
  \<open>rng.choice(a, size=(steps, n_boot))\<close> fills the matrix row by row; a pool that is
  \<open>None\<close> is no population.
\<close>

definition rows_of :: "nat \<Rightarrow> nat \<Rightarrow> 'a list \<Rightarrow> 'a list list" where
  "rows_of n_rows n_cols flat = map (\<lambda>r. take n_cols (drop (r * n_cols) flat)) [0 ..< n_rows]"

definition sample_residuals ::
  "('t, 'g) collaborators \<Rightarrow> 'g \<Rightarrow> pyfloat list option \<Rightarrow> nat \<Rightarrow> nat \<Rightarrow>
   error + (pyfloat list list \<times> 'g)" where
  "sample_residuals ext g residuals steps n_boot =
     (case residuals of
        None \<Rightarrow> Inl ValueError
      | Some a \<Rightarrow>
          (case rng_choice ext g a (steps * n_boot) True of
             Inl e \<Rightarrow> Inl e
           | Inr (flat, g') \<Rightarrow> Inr (rows_of steps n_boot flat, g')))"

text \<open>
  The loop over the replicates: replicate \<open>i\<close> runs the recursive engine on the same
  window, with column \<open>i\<close> of the sampled residuals or with the pools by bin, and is
  written into column \<open>i\<close>. The generator is shared by all replicates.
\<close>

fun boot_loop ::
  "('t, 'g) collaborators \<Rightarrow> 't forecaster \<Rightarrow> nat \<Rightarrow> pyfloat list \<Rightarrow> pyfloat list list option \<Rightarrow>
   (nat \<Rightarrow> residuals_arg) \<Rightarrow> nat list \<Rightarrow> pyfloat list list \<times> 'g option \<Rightarrow>
   error + (pyfloat list list \<times> 'g option)" where
  "boot_loop ext s steps last_window exog residuals [] st = Inr st"
| "boot_loop ext s steps last_window exog residuals (i # rest) st =
     (case recursive_predict ext s steps last_window exog (residuals i) (snd st) of
        Inl e \<Rightarrow> Inl e
      | Inr (predictions, rng') \<Rightarrow>
          (case set_column (fst st) i predictions of
             Inl e \<Rightarrow> Inl e
           | Inr boot' \<Rightarrow> boot_loop ext s steps last_window exog residuals rest (boot', rng')))"

text \<open>
  After the loop each column is integrated by the differentiator and inverse-transformed,
  and the frame takes the prediction index. \<open>np.apply_along_axis\<close> refuses a matrix
  without columns.
\<close>

definition boot_finish ::
  "('t, 'g) collaborators \<Rightarrow> 't forecaster \<Rightarrow> nat \<Rightarrow> nat \<Rightarrow> pyfloat list list \<Rightarrow>
   error + pyfloat list list" where
  "boot_finish ext s steps n_boot boot =
     (case (case differentiation s of
              None \<Rightarrow> Inr (map (column boot) [0 ..< n_boot])
            | Some d \<Rightarrow>
                (case differentiator s of
                   None \<Rightarrow> Inl AttributeError
                 | Some ds \<Rightarrow> Inr (map (\<lambda>j. inverse_transform_next_window ds (column boot j))
                                     [0 ..< n_boot]))) of
        Inl e \<Rightarrow> Inl e
      | Inr cols \<Rightarrow>
          (let cols' = map (transform_numpy ext (transformer_y s) True) cols
           in if n_boot = 0 then Inl ValueError
              else if \<forall>c \<in> set cols'. length c = steps
              then Inr (map (\<lambda>r. map (\<lambda>c. c ! r) cols') [0 ..< steps])
              else Inl ValueError))"

definition predict_bootstrapping ::
  "('t, 'g) collaborators \<Rightarrow> 't forecaster \<Rightarrow> nat \<Rightarrow> pyfloat list option \<Rightarrow>
   pyfloat list list option \<Rightarrow> nat \<Rightarrow> int \<Rightarrow> bool \<Rightarrow> bool \<Rightarrow>
   (error + pyfloat list list) \<times> 't forecaster" where
  "predict_bootstrapping ext s steps last_window exog n_boot random_state in_sample_residuals
                         binned_residuals =
     (case create_predict_inputs ext s steps last_window exog True in_sample_residuals
             binned_residuals True of
        (Inl e, s1) \<Rightarrow> (Inl e, s1)
      | (Inr (last_window_values, exog_values), s1) \<Rightarrow>
          (let residuals = (if in_sample_residuals then in_sample_residuals_attr s1
                            else out_sample_residuals_attr s1);
               residuals_by_bin = (if in_sample_residuals then in_sample_residuals_by_bin_attr s1
                                   else out_sample_residuals_by_bin_attr s1);
               rng = default_rng ext random_state
           in case (if \<not> binned_residuals
                    then sample_residuals ext rng residuals steps n_boot
                    else Inr ([], rng)) of
                Inl e \<Rightarrow> (Inl e, s1)
              | Inr (sampled_residuals, rng1) \<Rightarrow>
                  (case boot_loop ext s1 steps last_window_values exog_values
                          (\<lambda>i. if binned_residuals
                                then (case residuals_by_bin of
                                        None \<Rightarrow> NoResiduals
                                      | Some d \<Rightarrow> BinResiduals d)
                                else StepResiduals (column sampled_residuals i))
                          [0 ..< n_boot]
                          (replicate steps (replicate n_boot NaN), Some rng1) of
                     Inl e \<Rightarrow> (Inl e, s1)
                   | Inr (boot_predictions, rng2) \<Rightarrow>
                       (boot_finish ext s1 steps n_boot boot_predictions, s1))))"

section \<open>Out-of-sample residuals\<close>

text \<open>
  \<open>set_out_sample_residuals\<close>. The arguments are arrays, so the type checks pass and
  positions are the index; the argument \<open>append\<close> is \<open>append_new\<close>. Appending to a pool keeps its values and adds the new ones up
  to the free space.
\<close>

definition append_up_to :: "nat \<Rightarrow> 'a list \<Rightarrow> 'a list \<Rightarrow> 'a list" where
  "append_up_to cap stored new =
     (let free_space = cap - length stored
      in if length new < free_space then stored @ new else stored @ take free_space new)"

fun append_bins ::
  "(nat \<times> pyfloat list) list \<Rightarrow> (nat \<times> pyfloat list) list \<Rightarrow> (nat \<times> pyfloat list) list" where
  "append_bins stored [] = stored"
| "append_bins stored ((k, v) # new) =
     append_bins (case map_of stored k of
                    Some old \<Rightarrow> dict_set stored k (append_up_to 200 old v)
                  | None \<Rightarrow> dict_set stored k v) new"

fun add_missing_bins :: "(nat \<times> pyfloat list) list \<Rightarrow> nat list \<Rightarrow> (nat \<times> pyfloat list) list" where
  "add_missing_bins d [] = d"
| "add_missing_bins d (k # ks) =
     add_missing_bins (if k \<in> set (map fst d) then d else dict_set d k []) ks"

fun fill_empty_bins ::
  "('t, 'g) collaborators \<Rightarrow> pyfloat list \<Rightarrow> (nat \<times> pyfloat list) list \<Rightarrow> nat list \<Rightarrow>
   error + (nat \<times> pyfloat list) list" where
  "fill_empty_bins ext pool d [] = Inr d"
| "fill_empty_bins ext pool d (k # ks) =
     (case rng_choice ext (default_rng ext 123) pool 200 True of
        Inl e \<Rightarrow> Inl e
      | Inr (sample, g) \<Rightarrow> fill_empty_bins ext pool (dict_set d k sample) ks)"

definition set_flat_residuals ::
  "('t, 'g) collaborators \<Rightarrow> 't forecaster \<Rightarrow> pyfloat list \<Rightarrow> bool \<Rightarrow> int \<Rightarrow>
   (error + unit) \<times> 't forecaster" where
  "set_flat_residuals ext s residuals append_new random_state =
     (case (if 1000 < length residuals
            then (case rng_choice ext (default_rng ext random_state) residuals 1000 False of
                    Inl e \<Rightarrow> Inl e | Inr (sample, g) \<Rightarrow> Inr sample)
            else Inr residuals) of
        Inl e \<Rightarrow> (Inl e, s)
      | Inr residuals' \<Rightarrow>
          (Inr (), s\<lparr>out_sample_residuals_attr :=
                      Some (case out_sample_residuals_attr s of
                              Some stored \<Rightarrow> if append_new then append_up_to 1000 stored residuals'
                                             else residuals'
                            | None \<Rightarrow> residuals')\<rparr>))"

definition set_binned_residuals ::
  "('t, 'g) collaborators \<Rightarrow> 't forecaster \<Rightarrow> pyfloat list \<Rightarrow> pyfloat list \<Rightarrow> bool \<Rightarrow>
   (error + unit) \<times> 't forecaster" where
  "set_binned_residuals ext s residuals y_pred append_new =
     (case binner s of
        None \<Rightarrow> (Inl NotFittedError, s)
      | Some edges \<Rightarrow>
     (let residuals_by_bin = groupby_bin (zip (map (kbins_transform ext edges) y_pred) residuals);
          merged = (case out_sample_residuals_by_bin_attr s of
                      Some stored \<Rightarrow> if append_new then append_bins stored residuals_by_bin
                                     else residuals_by_bin
                    | None \<Rightarrow> residuals_by_bin);
          s1 = s\<lparr>out_sample_residuals_by_bin_attr := Some merged\<rparr>
      in case cap_bins ext 123 merged of
           Inl e \<Rightarrow> (Inl e, s1)
         | Inr capped \<Rightarrow>
     (let s2 = s1\<lparr>out_sample_residuals_by_bin_attr := Some capped\<rparr>
      in case np_concatenate (map snd capped) of
           Inl e \<Rightarrow> (Inl e, s2)
         | Inr flat \<Rightarrow>
     (let s3 = s2\<lparr>out_sample_residuals_attr := Some flat\<rparr>
      in case in_sample_residuals_by_bin_attr s3 of
           None \<Rightarrow> (Inl AttributeError, s3)
         | Some in_bins \<Rightarrow>
     (let with_missing = add_missing_bins capped (map fst in_bins);
          s4 = s3\<lparr>out_sample_residuals_by_bin_attr := Some with_missing\<rparr>;
          empty_bins = map fst (filter (\<lambda>(k, v). length v = 0) with_missing)
      in case fill_empty_bins ext flat with_missing empty_bins of
           Inl e \<Rightarrow> (Inl e, s4)
         | Inr filled \<Rightarrow> (Inr (), s4\<lparr>out_sample_residuals_by_bin_attr := Some filled\<rparr>))))))"

definition set_out_sample_residuals ::
  "('t, 'g) collaborators \<Rightarrow> 't forecaster \<Rightarrow> pyfloat list \<Rightarrow> pyfloat list option \<Rightarrow>
   bool \<Rightarrow> bool \<Rightarrow> int \<Rightarrow> (error + unit) \<times> 't forecaster" where
  "set_out_sample_residuals ext s residuals y_pred append_new transform random_state =
     (if y_pred \<noteq> None \<and> length residuals \<noteq> length (the y_pred) then (Inl ValueError, s)
      else if y_pred \<noteq> None \<and> \<not> is_fitted s then (Inl NotFittedError, s)
      else (let residuals' = (if transform then transform_numpy ext (transformer_y s) False residuals
                              else residuals)
            in case y_pred of
                 None \<Rightarrow> set_flat_residuals ext s residuals' append_new random_state
               | Some p \<Rightarrow> set_binned_residuals ext s residuals' p append_new))"

section \<open>The legacy prediction path\<close>

text \<open>
  \<open>_create_predict_inputs_013\<close>, \<open>_recursive_predict_013\<close> and \<open>predict_013\<close>.
  The legacy path always checks its input, slices the exogenous values before it
  transforms the window, and transforms frames and series rather than arrays.
\<close>

definition create_predict_inputs_013 ::
  "('t, 'g) collaborators \<Rightarrow> 't forecaster \<Rightarrow> nat \<Rightarrow> pyfloat list option \<Rightarrow>
   pyfloat list list option \<Rightarrow>
   (error + (pyfloat list \<times> pyfloat list list option)) \<times> 't forecaster" where
  "create_predict_inputs_013 ext s steps last_window exog =
     (let lw = (case last_window of None \<Rightarrow> last_window_attr s | Some w \<Rightarrow> Some w)
      in case check_predict_input ext steps (is_fitted s) (exog_in_attr s)
                (window_size_diff s) lw exog of
           Some e \<Rightarrow> (Inl e, s)
         | None \<Rightarrow>
             (case lw of
                None \<Rightarrow> (Inl AttributeError, s)
              | Some w \<Rightarrow>
                  (case exog_predict ext s steps exog of
                     Inl e \<Rightarrow> (Inl e, s)
                   | Inr exog_values \<Rightarrow>
                       (case transform_series ext (transformer_y s) False
                               (py_slice_from w (- window_size_diff s)) of
                          Inl e \<Rightarrow> (Inl e, s)
                        | Inr transformed \<Rightarrow>
                            (case differentiate_window s transformed of
                               (Inl e, s1) \<Rightarrow> (Inl e, s1)
                             | (Inr last_window_values, s1) \<Rightarrow>
                                 (Inr (last_window_values, exog_values), s1))))))"

definition recursive_step_013 ::
  "'t forecaster \<Rightarrow> nat \<Rightarrow> pyfloat list list option \<Rightarrow> nat \<Rightarrow> pyfloat list \<times> pyfloat list \<Rightarrow>
   error + (pyfloat list \<times> pyfloat list)" where
  "recursive_step_013 s steps exog i st =
     (case st of (last_window, predictions) \<Rightarrow>
      (case py_take last_window (lag_positions s steps i) of
         Inl e \<Rightarrow> Inl e
       | Inr X_lags \<Rightarrow>
      (case (case exog of
               None \<Rightarrow> Inr X_lags
             | Some E \<Rightarrow> (case py_index E (int i) of
                            Inl e \<Rightarrow> Inl e
                          | Inr row \<Rightarrow> Inr (X_lags @ row))) of
         Inl e \<Rightarrow> Inl e
       | Inr X \<Rightarrow>
      (let prediction = regressor s X
       in case py_set last_window (- (int steps - int i)) prediction of
            Inl e \<Rightarrow> Inl e
          | Inr last_window' \<Rightarrow> Inr (last_window', predictions[i := prediction])))))"

fun recursive_loop_013 ::
  "'t forecaster \<Rightarrow> nat \<Rightarrow> pyfloat list list option \<Rightarrow> nat list \<Rightarrow> pyfloat list \<times> pyfloat list \<Rightarrow>
   error + (pyfloat list \<times> pyfloat list)" where
  "recursive_loop_013 s steps exog [] st = Inr st"
| "recursive_loop_013 s steps exog (i # rest) st =
     (case recursive_step_013 s steps exog i st of
        Inl e \<Rightarrow> Inl e
      | Inr st' \<Rightarrow> recursive_loop_013 s steps exog rest st')"

definition recursive_predict_013 ::
  "'t forecaster \<Rightarrow> nat \<Rightarrow> pyfloat list \<Rightarrow> pyfloat list list option \<Rightarrow> error + pyfloat list" where
  "recursive_predict_013 s steps last_window exog =
     (case recursive_loop_013 s steps exog [0 ..< steps]
             (last_window @ replicate steps NaN, replicate steps NaN) of
        Inl e \<Rightarrow> Inl e
      | Inr (last_window', predictions) \<Rightarrow> Inr predictions)"

definition predict_013 ::
  "('t, 'g) collaborators \<Rightarrow> 't forecaster \<Rightarrow> nat \<Rightarrow> pyfloat list option \<Rightarrow>
   pyfloat list list option \<Rightarrow> (error + pyfloat list) \<times> 't forecaster" where
  "predict_013 ext s steps last_window exog =
     (case create_predict_inputs_013 ext s steps last_window exog of
        (Inl e, s1) \<Rightarrow> (Inl e, s1)
      | (Inr (last_window_values, exog_values), s1) \<Rightarrow>
          (case recursive_predict_013 s1 steps last_window_values exog_values of
             Inl e \<Rightarrow> (Inl e, s1)
           | Inr predictions \<Rightarrow>
               (case undifferentiate s1 predictions of
                  Inl e \<Rightarrow> (Inl e, s1)
                | Inr levels \<Rightarrow>
                    (case with_index steps levels of
                       Inl e \<Rightarrow> (Inl e, s1)
                     | Inr series \<Rightarrow> (transform_series ext (transformer_y s1) True series, s1)))))"

section \<open>ForecasterAutoregMultiVariate: direct prediction\<close>

text \<open>
  The fields of the direct forecaster that prediction reads. \<open>regressors_\<close> maps each
  horizon to its fitted regressor; \<open>lags_\<close>, \<open>transformer_series_\<close> and
  \<open>X_train_series_names_in_\<close> are \<open>None\<close> until \<open>fit\<close>; a frame is the map from
  its column names to their values. Prediction does not assign to \<open>self\<close>, so the
  functions return their result only.
\<close>

record 't direct_forecaster =
  regressors_attr :: "nat \<rightharpoonup> (pyfloat list \<Rightarrow> pyfloat)"
  steps_attr :: nat
  level :: string
  lags_attr :: "(string \<rightharpoonup> int list option) option"
  direct_window_size :: int
  X_train_series_names_in_attr :: "string list option"
  transformer_series_attr :: "(string \<rightharpoonup> 't option) option"
  direct_transformer_exog :: "'t option"
  direct_last_window_attr :: "(string \<rightharpoonup> pyfloat list) option"
  direct_in_sample_residuals_attr :: "nat \<rightharpoonup> pyfloat list option"
  direct_out_sample_residuals_attr :: "(nat \<rightharpoonup> pyfloat list option) option"
  direct_exog_in_attr :: bool
  direct_is_fitted :: bool

text \<open>
  Modelled from the spec: \<open>prepare_steps_direct\<close> (\<open>skforecast.utils\<close>) is not among
  the sources. As the docstring of \<open>predict\<close> has it, the requested horizons are
  \<open>1..n\<close> for an integer \<open>n\<close>, the list itself for a list, and every horizon defined at
  initialization for \<open>None\<close>.
\<close>

datatype steps_arg = StepsInt nat | StepsList "nat list" | StepsNone

definition prepare_steps_direct :: "steps_arg \<Rightarrow> nat \<Rightarrow> nat list" where
  "prepare_steps_direct steps max_step =
     (case steps of
        StepsInt n \<Rightarrow> [1 ..< n + 1]
      | StepsList l \<Rightarrow> l
      | StepsNone \<Rightarrow> [1 ..< max_step + 1])"

definition py_max :: "nat list \<Rightarrow> error + nat" where
  "py_max xs = (if xs = [] then Inl ValueError else Inr (Max (set xs)))"

text \<open>
  The loop of \<open>_create_predict_inputs\<close> over \<open>X_train_series_names_in_\<close>: the lags of
  every series, read from the same last window and stacked in that order.
\<close>

fun collect_lags ::
  "('t, 'g) collaborators \<Rightarrow> 't direct_forecaster \<Rightarrow> (string \<rightharpoonup> pyfloat list) \<Rightarrow> string list \<Rightarrow>
   error + pyfloat list" where
  "collect_lags ext m last_window [] = Inr []"
| "collect_lags ext m last_window (serie # rest) =
     (case last_window serie of
        None \<Rightarrow> Inl KeyError
      | Some col \<Rightarrow>
     (case transformer_series_attr m of
        None \<Rightarrow> Inl TypeError
      | Some ts \<Rightarrow>
     (case ts serie of
        None \<Rightarrow> Inl KeyError
      | Some tr \<Rightarrow>
     (case lags_attr m of
        None \<Rightarrow> Inl TypeError
      | Some L \<Rightarrow>
     (case L serie of
        None \<Rightarrow> Inl KeyError
      | Some None \<Rightarrow> Inl TypeError
      | Some (Some ls) \<Rightarrow>
     (case py_take (transform_numpy ext tr False (py_slice_from col (- direct_window_size m)))
                   (map uminus ls) of
        Inl e \<Rightarrow> Inl e
      | Inr x \<Rightarrow>
     (case collect_lags ext m last_window rest of
        Inl e \<Rightarrow> Inl e
      | Inr r \<Rightarrow> Inr (x @ r))))))))"

text \<open>
  The list \<open>Xs\<close>: without exogenous variables the one row \<open>X_lags\<close>, once per requested
  horizon; with them, \<open>X_lags\<close> followed by the slice of the horizon.
\<close>

definition direct_inputs ::
  "('t, 'g) collaborators \<Rightarrow> 't direct_forecaster \<Rightarrow> nat list \<Rightarrow> pyfloat list \<Rightarrow>
   pyfloat list list option \<Rightarrow> error + pyfloat list list" where
  "direct_inputs ext m steps X_lags exog =
     (case exog of
        None \<Rightarrow> Inr (replicate (length steps) X_lags)
      | Some E \<Rightarrow>
          (case transform_dataframe_exog ext (direct_transformer_exog m) False E of
             Inl e \<Rightarrow> Inl e
           | Inr (E', te) \<Rightarrow>
               (case py_max steps of
                  Inl e \<Rightarrow> Inl e
                | Inr k \<Rightarrow>
                    (case exog_to_direct_numpy ext (py_slice_to E' (int k)) k of
                       Inl e \<Rightarrow> Inl e
                     | Inr exog_values \<Rightarrow>
                         (let n_exog = int (length (hd E'))
                          in Inr (map (\<lambda>step. X_lags @
                                        py_slice exog_values ((int step - 1) * n_exog)
                                                             (int step * n_exog))
                                      steps))))))"

text \<open>
  \<open>expand_index(index, max(steps))[steps - 1]\<close>: the labels of the horizons
  \<open>1..max(steps)\<close>, picked at the requested ones. A label is the number of periods
  after the end of the window.
\<close>

definition direct_prediction_index :: "nat list \<Rightarrow> error + nat list" where
  "direct_prediction_index steps =
     (case py_max steps of
        Inl e \<Rightarrow> Inl e
      | Inr k \<Rightarrow> py_take [1 ..< k + 1] (map (\<lambda>step. int step - 1) steps))"

definition direct_create_predict_inputs ::
  "('t, 'g) collaborators \<Rightarrow> 't direct_forecaster \<Rightarrow> steps_arg \<Rightarrow> (string \<rightharpoonup> pyfloat list) option \<Rightarrow>
   pyfloat list list option \<Rightarrow> bool \<Rightarrow> error + (pyfloat list list \<times> nat list \<times> nat list)" where
  "direct_create_predict_inputs ext m steps last_window exog check_inputs =
     (let steps' = prepare_steps_direct steps (steps_attr m);
          lw = (case last_window of None \<Rightarrow> direct_last_window_attr m | Some w \<Rightarrow> Some w)
      in case (if check_inputs
               then check_predict_input_direct ext steps' (direct_is_fitted m)
                      (direct_exog_in_attr m) (direct_window_size m) lw exog (steps_attr m)
                      (X_train_series_names_in_attr m)
               else None) of
           Some e \<Rightarrow> Inl e
         | None \<Rightarrow>
     (case lw of
        None \<Rightarrow> Inl AttributeError
      | Some w \<Rightarrow>
     (case X_train_series_names_in_attr m of
        None \<Rightarrow> Inl KeyError
      | Some names \<Rightarrow>
     (if \<exists>serie \<in> set names. w serie = None then Inl KeyError
      else
     (case collect_lags ext m w names of
        Inl e \<Rightarrow> Inl e
      | Inr X_lags \<Rightarrow>
     (if names = [] then Inl IndexError
      else
     (case direct_inputs ext m steps' X_lags exog of
        Inl e \<Rightarrow> Inl e
      | Inr Xs \<Rightarrow>
     (case direct_prediction_index steps' of
        Inl e \<Rightarrow> Inl e
      | Inr prediction_index \<Rightarrow> Inr (Xs, steps', prediction_index)))))))))"

text \<open>
  \<open>predict\<close>. The comprehension \<open>[self.regressors_[step] for step in steps]\<close> looks the
  regressors up before any of them predicts; \<open>zip\<close> pairs each with its row.
\<close>

fun lookup_regressors ::
  "'t direct_forecaster \<Rightarrow> nat list \<Rightarrow> error + (pyfloat list \<Rightarrow> pyfloat) list" where
  "lookup_regressors m [] = Inr []"
| "lookup_regressors m (step # rest) =
     (case regressors_attr m step of
        None \<Rightarrow> Inl KeyError
      | Some r \<Rightarrow> (case lookup_regressors m rest of
                    Inl e \<Rightarrow> Inl e
                  | Inr rs \<Rightarrow> Inr (r # rs)))"

definition level_transformer :: "'t direct_forecaster \<Rightarrow> error + 't option" where
  "level_transformer m =
     (case transformer_series_attr m of
        None \<Rightarrow> Inl TypeError
      | Some ts \<Rightarrow> (case ts (level m) of None \<Rightarrow> Inl KeyError | Some tr \<Rightarrow> Inr tr))"

definition direct_predict ::
  "('t, 'g) collaborators \<Rightarrow> 't direct_forecaster \<Rightarrow> steps_arg \<Rightarrow> (string \<rightharpoonup> pyfloat list) option \<Rightarrow>
   pyfloat list list option \<Rightarrow> bool \<Rightarrow> error + pyfloat list" where
  "direct_predict ext m steps last_window exog check_inputs =
     (case direct_create_predict_inputs ext m steps last_window exog check_inputs of
        Inl e \<Rightarrow> Inl e
      | Inr (Xs, steps', prediction_index) \<Rightarrow>
     (case lookup_regressors m steps' of
        Inl e \<Rightarrow> Inl e
      | Inr regressors \<Rightarrow>
     (let predictions = map (\<lambda>(regressor, X). regressor X) (zip regressors Xs)
      in case level_transformer m of
           Inl e \<Rightarrow> Inl e
         | Inr tr \<Rightarrow>
             with_index (length prediction_index) (transform_numpy ext tr True predictions))))"

text \<open>
  \<open>predict_bootstrapping\<close> of the direct forecaster. A fitted forecaster replaces
  \<open>steps\<close> by its list and checks the pools of these horizons; an unfitted one that got
  past the input checks of \<open>predict\<close> cannot iterate over \<open>steps\<close> unless it is a list,
  which is not empty when \<open>predict\<close> returned, and then has no \<open>residuals\<close> to read.
  \<open>np.apply_along_axis\<close> refuses a matrix without columns. The point
  predictions are tiled into \<open>n_boot\<close> columns, and row \<open>i\<close> gets one draw per column
  from the pool of the \<open>i\<close>-th requested horizon, all from the one generator.
\<close>

definition check_direct_residuals ::
  "'t direct_forecaster \<Rightarrow> nat list \<Rightarrow> bool \<Rightarrow> error + (nat \<rightharpoonup> pyfloat list option)" where
  "check_direct_residuals m steps use_in_sample_residuals =
     (case (if use_in_sample_residuals
            then (if \<forall>step \<in> set steps. direct_in_sample_residuals_attr m step \<noteq> None
                  then Inr (direct_in_sample_residuals_attr m) else Inl ValueError)
            else (case direct_out_sample_residuals_attr m of
                    None \<Rightarrow> Inl ValueError
                  | Some out \<Rightarrow>
                      if \<forall>step \<in> set steps. out step \<noteq> None then Inr out else Inl ValueError)) of
        Inl e \<Rightarrow> Inl e
      | Inr residuals \<Rightarrow>
          (if \<exists>step \<in> set steps.
                (case residuals step of
                   None \<Rightarrow> False
                 | Some None \<Rightarrow> True
                 | Some (Some v) \<Rightarrow> NaN \<in> set v)
           then Inl ValueError else Inr residuals))"

fun add_step_residuals ::
  "('t, 'g) collaborators \<Rightarrow> (nat \<rightharpoonup> pyfloat list option) \<Rightarrow> nat \<Rightarrow> nat \<Rightarrow> nat list \<Rightarrow>
   pyfloat list list \<times> 'g \<Rightarrow> error + (pyfloat list list \<times> 'g)" where
  "add_step_residuals ext residuals n_boot i [] st = Inr st"
| "add_step_residuals ext residuals n_boot i (step # rest) st =
     (case residuals step of
        None \<Rightarrow> Inl KeyError
      | Some None \<Rightarrow> Inl ValueError
      | Some (Some pool) \<Rightarrow>
          (case rng_choice ext (snd st) pool n_boot True of
             Inl e \<Rightarrow> Inl e
           | Inr (sample, g) \<Rightarrow>
               if i < length (fst st)
               then add_step_residuals ext residuals n_boot (Suc i) rest
                      ((fst st)[i := map (\<lambda>(a, b). num_add a b) (zip (fst st ! i) sample)], g)
               else Inl IndexError))"

definition inverse_columns ::
  "('t, 'g) collaborators \<Rightarrow> 't option \<Rightarrow> nat \<Rightarrow> pyfloat list list \<Rightarrow> error + pyfloat list list" where
  "inverse_columns ext tr n_boot boot =
     (case tr of
        None \<Rightarrow> Inr boot
      | Some t \<Rightarrow>
          (let cols = map (\<lambda>j. transform_numpy ext tr True (column boot j)) [0 ..< n_boot]
           in if n_boot = 0 then Inl ValueError
              else if \<forall>c \<in> set cols. length c = length (hd cols)
              then Inr (map (\<lambda>r. map (\<lambda>c. c ! r) cols) [0 ..< length (hd cols)])
              else Inl ValueError))"

definition direct_predict_bootstrapping ::
  "('t, 'g) collaborators \<Rightarrow> 't direct_forecaster \<Rightarrow> steps_arg \<Rightarrow> (string \<rightharpoonup> pyfloat list) option \<Rightarrow>
   pyfloat list list option \<Rightarrow> nat \<Rightarrow> int \<Rightarrow> bool \<Rightarrow> error + pyfloat list list" where
  "direct_predict_bootstrapping ext m steps last_window exog n_boot random_state
                                use_in_sample_residuals =
     (case (if direct_is_fitted m
            then (let steps' = prepare_steps_direct steps (steps_attr m)
                  in case check_direct_residuals m steps' use_in_sample_residuals of
                       Inl e \<Rightarrow> Inl e
                     | Inr residuals \<Rightarrow> Inr (StepsList steps', Some residuals))
            else Inr (steps, None)) of
        Inl e \<Rightarrow> Inl e
      | Inr (steps1, residuals) \<Rightarrow>
     (case direct_predict ext m steps1 last_window exog True of
        Inl e \<Rightarrow> Inl e
      | Inr predictions \<Rightarrow>
     (case level_transformer m of
        Inl e \<Rightarrow> Inl e
      | Inr tr \<Rightarrow>
     (case steps1 of
        StepsInt n \<Rightarrow> Inl TypeError
      | StepsNone \<Rightarrow> Inl TypeError
      | StepsList l \<Rightarrow>
     (case residuals of
        None \<Rightarrow> Inl NameError
      | Some res \<Rightarrow>
     (case add_step_residuals ext res n_boot 0 l
             (map (replicate n_boot) (transform_numpy ext tr False predictions),
              default_rng ext random_state) of
        Inl e \<Rightarrow> Inl e
      | Inr (boot, g) \<Rightarrow>
     (case inverse_columns ext tr n_boot boot of
        Inl e \<Rightarrow> Inl e
      | Inr boot' \<Rightarrow>
          if length boot' = length predictions then Inr boot' else Inl ValueError)))))))"

section \<open>The scenarios of the specification\<close>

text \<open>
  \<open>__init__\<close>, given the array that \<open>initialize_lags\<close> returns. Modelled from the spec:
  \<open>initialize_lags\<close> (\<open>skforecast.utils\<close>) is not among the sources; an invalid lag
  specification (empty or with a non-positive lag) is a configuration error.
\<close>

definition forecaster_init ::
  "(pyfloat list \<Rightarrow> pyfloat) \<Rightarrow> int list \<Rightarrow> 't option \<Rightarrow> 't option \<Rightarrow> nat option \<Rightarrow>
   error + 't forecaster" where
  "forecaster_init reg ls tr_y tr_exog diff =
     (if ls = [] \<or> (\<exists>l \<in> set ls. l < 1) then Inl ValueError
      else if diff = Some 0 then Inl ValueError
      else Inr \<lparr>regressor = reg, lags = ls, max_lag = Max (set ls), window_size = Max (set ls),
                window_size_diff = Max (set ls) + (case diff of None \<Rightarrow> 0 | Some d \<Rightarrow> int d),
                transformer_y = tr_y, transformer_exog = tr_exog, differentiation = diff,
                differentiator = (case diff of None \<Rightarrow> None
                                  | Some d \<Rightarrow> Some \<lparr>order = d, last_values = []\<rparr>),
                last_window_attr = None, in_sample_residuals_attr = None,
                out_sample_residuals_attr = None, in_sample_residuals_by_bin_attr = None,
                out_sample_residuals_by_bin_attr = None, binner = None, binner_intervals = None,
                exog_in_attr = False, is_fitted = False\<rparr>)"

text \<open>The trivial estimator of the concrete scenario: \<open>predict\<close> is the mean of the row.\<close>

fun num_sum :: "pyfloat list \<Rightarrow> pyfloat" where
  "num_sum [] = Num 0"
| "num_sum (x # xs) = num_add x (num_sum xs)"

definition mean_row :: "pyfloat list \<Rightarrow> pyfloat" where
  "mean_row xs = (case num_sum xs of
                    NaN \<Rightarrow> NaN
                  | Num t \<Rightarrow> if xs = [] then NaN else Num (t / real (length xs)))"

text \<open>
  Collaborators for the scenarios: no transformer, a generator that counts, a discretizer
  whose fit found the given edges and whose ordinal code of a value is the number of
  interior edges not above it, the mean estimator, and input checks that refuse an
  unfitted forecaster, zero steps, a window shorter than the window size and, for the
  direct forecaster, a horizon outside \<open>1..steps\<close>.
\<close>

definition ordinal_bin :: "real list \<Rightarrow> pyfloat \<Rightarrow> nat" where
  "ordinal_bin edges v =
     (case v of NaN \<Rightarrow> 0 | Num x \<Rightarrow> length (filter (\<lambda>e. e \<le> x) (butlast (tl edges))))"

definition scenario :: "real list \<Rightarrow> (unit, nat) collaborators" where
  "scenario edges =
     \<lparr>tr_fit_transform = (\<lambda>t xs. (xs, t)), tr_transform = (\<lambda>t xs. xs),
      tr_inverse_transform = (\<lambda>t xs. xs),
      tr_fit_transform_exog = (\<lambda>t E. (E, t)), tr_transform_exog = (\<lambda>t E. E),
      default_rng = (\<lambda>seed. nat \<bar>seed\<bar>), rng_next = (\<lambda>g n. (g, Suc g)),
      kbins_fit = (\<lambda>p. edges), kbins_transform = ordinal_bin,
      regressor_fit = (\<lambda>X y. mean_row),
      check_y = (\<lambda>y. None), check_exog = (\<lambda>E. None),
      check_predict_input = (\<lambda>steps fitted exog_in w lw ex.
         if \<not> fitted then Some NotFittedError
         else if steps = 0 then Some ValueError
         else (case lw of None \<Rightarrow> Some ValueError
               | Some v \<Rightarrow> if int (length v) < w then Some ValueError else None)),
      check_predict_input_direct = (\<lambda>steps fitted exog_in w lw ex max_steps names.
         if \<not> fitted then Some NotFittedError
         else if steps = [] \<or> (\<exists>step \<in> set steps. step < 1 \<or> max_steps < step)
         then Some ValueError else None),
      exog_to_direct_numpy = (\<lambda>E k.
         if k = 0 \<or> length E < k then Inl ValueError else Inr (concat (take k E)))\<rparr>"

text \<open>
  The direct scenario: three horizons, each with an estimator that predicts a constant,
  one series \<open>y\<close> with lags 1 to 3 and the last window 8, 9, 10, no transformer, and
  two in-sample residuals per horizon.
\<close>

definition direct3 :: "pyfloat \<Rightarrow> pyfloat \<Rightarrow> pyfloat \<Rightarrow> unit direct_forecaster" where
  "direct3 c1 c2 c3 =
     \<lparr>regressors_attr = [1 \<mapsto> (\<lambda>X. c1), 2 \<mapsto> (\<lambda>X. c2), 3 \<mapsto> (\<lambda>X. c3)],
      steps_attr = 3, level = ''y'',
      lags_attr = Some [''y'' \<mapsto> Some [1, 2, 3]],
      direct_window_size = 3,
      X_train_series_names_in_attr = Some [''y''],
      transformer_series_attr = Some [''y'' \<mapsto> None],
      direct_transformer_exog = None,
      direct_last_window_attr = Some [''y'' \<mapsto> [Num 8, Num 9, Num 10]],
      direct_in_sample_residuals_attr =
        [1 \<mapsto> Some [Num 1, Num (- 1)], 2 \<mapsto> Some [Num 2, Num (- 2)], 3 \<mapsto> Some [Num 3, Num (- 3)]],
      direct_out_sample_residuals_attr = None,
      direct_exog_in_attr = False, direct_is_fitted = True\<rparr>"

definition y10 :: "pyfloat list" where
  "y10 = map (\<lambda>k. Num (real k)) [1 ..< 11]"

definition lags3 :: "unit forecaster" where
  "lags3 = (case forecaster_init mean_row [1, 2, 3] None None None of Inr s \<Rightarrow> s)"

definition lags3_diff2 :: "unit forecaster" where
  "lags3_diff2 = (case forecaster_init mean_row [1, 2, 3] None None (Some 2) of Inr s \<Rightarrow> s)"

definition lags3_fitted :: "unit forecaster" where
  "lags3_fitted = snd (fit (scenario [0, 1]) lags3 y10 None True True)"

section \<open>Notions used in the statements and proofs\<close>

text \<open>
  How the cap loop relates a bin to what it stores, and the differentiator that \<open>fit\<close>
  leaves in a forecaster without transformer.
\<close>

definition cap_rel :: "nat \<times> pyfloat list \<Rightarrow> nat \<times> pyfloat list \<Rightarrow> bool" where
  "cap_rel p q \<longleftrightarrow> fst q = fst p \<and>
     (if 200 < length (snd p) then length (snd q) = 200 else snd q = snd p)"

definition fitted_differentiator :: "'t forecaster \<Rightarrow> pyfloat list \<Rightarrow> differentiator_state option" where
  "fitted_differentiator s0 y =
     (case differentiation s0 of
        None \<Rightarrow> differentiator s0
      | Some d \<Rightarrow> (case differentiator s0 of None \<Rightarrow> None
                   | Some ds \<Rightarrow> Some (snd (fit_transform ds y))))"

definition lags3_diff1 :: "unit forecaster" where
  "lags3_diff1 = (case forecaster_init mean_row [1, 2, 3] None None (Some 1) of Inr s \<Rightarrow> s)"

definition lags3_diff1_fitted :: "unit forecaster" where
  "lags3_diff1_fitted = snd (fit (scenario [0, 1]) lags3_diff1 y10 None True True)"

definition blocks6 :: "pyfloat list" where
  "blocks6 = concat (map (\<lambda>k. replicate 200 (Num k)) [0, 1, 2, 3, 4, 5])"

definition closed_intervals :: "real list \<Rightarrow> (nat \<times> real \<times> real option) list" where
  "closed_intervals edges =
     map (\<lambda>i. (i, edges ! i, Some (edges ! Suc i))) [0 ..< length edges - 1]"

definition pool_caps :: "(nat \<times> pyfloat list) list option \<Rightarrow> pyfloat list option \<Rightarrow> bool" where
  "pool_caps by_bin flat \<longleftrightarrow>
     (case (by_bin, flat) of
        (Some d, Some f) \<Rightarrow> (\<forall>p \<in> set d. length (snd p) \<le> 200) \<and> length f \<le> 200 * length d
      | _ \<Rightarrow> False)"

definition y_short :: "pyfloat list" where
  "y_short = [Num 0, Num 0, Num 0, Num 30, Num 12]"

definition thirds :: "real list" where
  "thirds = [0, 10 / 3, 20 / 3, 10]"

section \<open>Training matrices: shape\<close>


lemma py_bound_neg: "1 \<le> l \<Longrightarrow> l \<le> int n \<Longrightarrow> py_bound n (- l) = py_bound n (int n - l)"
  by (auto simp: py_bound_def)

lemma py_slice_neg_stop: "1 \<le> l \<Longrightarrow> l \<le> int (length y) \<Longrightarrow> py_slice y a (- l) = py_slice y a (int (length y) - l)"
  by (auto simp: py_slice_def py_bound_def)

lemma length_lag_slice:
  "1 \<le> l \<Longrightarrow> l \<le> m \<Longrightarrow> m < int (length y) \<Longrightarrow>
   length (py_slice y (m - l) (- l)) = length y - nat m"
  by (auto simp: py_slice_def py_bound_def)

lemma set_column_full:
  "length v = length X \<Longrightarrow> set_column X i v = Inr (map (\<lambda>(r, x). r[i := x]) (zip X v))"
  by (simp add: set_column_def)

lemma column_set_same:
  "length X = length v \<Longrightarrow> \<forall>r \<in> set X. i < length r \<Longrightarrow>
   column (map (\<lambda>(r, x). r[i := x]) (zip X v)) i = v"
  by (induction X v rule: list_induct2) (auto simp: column_def)

lemma column_set_other:
  "length X = length v \<Longrightarrow> j \<noteq> i \<Longrightarrow>
   column (map (\<lambda>(r, x). r[i := x]) (zip X v)) j = column X j"
  by (induction X v rule: list_induct2) (auto simp: column_def)

lemma rows_set_column:
  "length X = length v \<Longrightarrow> \<forall>r \<in> set X. length r = k \<Longrightarrow>
   \<forall>r \<in> set (map (\<lambda>(r, x). r[i := x]) (zip X v)). length r = k"
  by (induction X v rule: list_induct2) auto

lemma fill_lag_columns_inv:
  assumes "\<forall>l \<in> set rest. 1 \<le> l \<and> l \<le> m" "m < int (length y)"
    "length X = length y - nat m" "\<forall>r \<in> set X. length r = k" "i + length rest \<le> k"
  shows "\<exists>X'. fill_lag_columns y m X i rest = Inr X' \<and> length X' = length X \<and>
           (\<forall>r \<in> set X'. length r = k) \<and>
           (\<forall>j < k. column X' j =
              (if i \<le> j \<and> j < i + length rest then py_slice y (m - rest ! (j - i)) (- (rest ! (j - i)))
               else column X j))"
  using assms
proof (induction rest arbitrary: X i)
  case Nil
  then show ?case by auto
next
  case (Cons lag rest)
  let ?v = "py_slice y (m - lag) (- lag)"
  let ?X1 = "map (\<lambda>(r, x). r[i := x]) (zip X ?v)"
  have lv: "length ?v = length X"
    using Cons.prems by (simp add: length_lag_slice)
  have sc: "set_column X i ?v = Inr ?X1" using lv by (rule set_column_full)
  have l1: "length ?X1 = length y - nat m" using lv Cons.prems by simp
  have r1: "\<forall>r \<in> set ?X1. length r = k" using rows_set_column[OF lv[symmetric] Cons.prems(4)] .
  have "\<exists>X'. fill_lag_columns y m ?X1 (Suc i) rest = Inr X' \<and> length X' = length ?X1 \<and>
           (\<forall>r \<in> set X'. length r = k) \<and>
           (\<forall>j < k. column X' j =
              (if Suc i \<le> j \<and> j < Suc i + length rest then py_slice y (m - rest ! (j - Suc i)) (- (rest ! (j - Suc i)))
               else column ?X1 j))"
    using Cons.prems by (intro Cons.IH l1 r1) auto
  then obtain X' where X': "fill_lag_columns y m ?X1 (Suc i) rest = Inr X'" "length X' = length ?X1"
     "\<forall>r \<in> set X'. length r = k"
     "\<forall>j < k. column X' j =
              (if Suc i \<le> j \<and> j < Suc i + length rest then py_slice y (m - rest ! (j - Suc i)) (- (rest ! (j - Suc i)))
               else column ?X1 j)" by blast
  have ik: "i < k" using Cons.prems by simp
  have ci: "column ?X1 i = ?v" using column_set_same[OF lv[symmetric]] Cons.prems(4) ik by auto
  have co: "\<And>j. j \<noteq> i \<Longrightarrow> column ?X1 j = column X j" using column_set_other[OF lv[symmetric]] by blast
  have "\<forall>j < k. column X' j =
              (if i \<le> j \<and> j < i + length (lag # rest) then py_slice y (m - (lag # rest) ! (j - i)) (- ((lag # rest) ! (j - i)))
               else column X j)"
  proof (intro allI impI)
    fix j assume jk: "j < k"
    show "column X' j = (if i \<le> j \<and> j < i + length (lag # rest) then py_slice y (m - (lag # rest) ! (j - i)) (- ((lag # rest) ! (j - i)))
               else column X j)"
    proof (cases "j = i")
      case True
      then show ?thesis using X'(4) jk ci by simp
    next
      case False
      then show ?thesis using X'(4) jk co[OF False] by (auto simp: nth_Cons' Suc_diff_le)
    qed
  qed
  then show ?case using sc X' lv by simp
qed


lemma Max_lags_bound: "ls \<noteq> [] \<Longrightarrow> l \<in> set ls \<Longrightarrow> l \<le> Max (set ls)"
  by simp

lemma init_ok_lag_bounds: "init_ok s \<Longrightarrow> l \<in> set (lags s) \<Longrightarrow> 1 \<le> l \<and> l \<le> max_lag s"
  by (auto simp: init_ok_def)

lemma init_ok_max_lag_pos: "init_ok s \<Longrightarrow> 1 \<le> max_lag s"
proof -
  assume a: "init_ok s"
  then obtain l where "l \<in> set (lags s)" by (cases "lags s") (auto simp: init_ok_def)
  with a show ?thesis using init_ok_lag_bounds by fastforce
qed

lemma create_lags_short: "int (length y) \<le> max_lag s \<Longrightarrow> create_lags s y = Inl ValueError"
  by (simp add: create_lags_def)

lemma create_lags_ok:
  assumes "init_ok s" "max_lag s < int (length y)"
  shows "\<exists>X. create_lags s y = Inr (X, py_slice_from y (max_lag s)) \<and>
           length X = length y - nat (max_lag s) \<and>
           (\<forall>r \<in> set X. length r = length (lags s)) \<and>
           (\<forall>i < length (lags s). column X i =
              py_slice y (max_lag s - lags s ! i) (int (length y) - lags s ! i))"
proof -
  let ?n = "nat (int (length y) - max_lag s)"
  let ?X0 = "replicate ?n (replicate (length (lags s)) NaN)"
  have mp: "1 \<le> max_lag s" using assms(1) by (rule init_ok_max_lag_pos)
  have n: "?n = length y - nat (max_lag s)" using mp by simp
  have b: "\<forall>l \<in> set (lags s). 1 \<le> l \<and> l \<le> max_lag s"
    using assms(1) init_ok_lag_bounds by blast
  have "\<exists>X'. fill_lag_columns y (max_lag s) ?X0 0 (lags s) = Inr X' \<and> length X' = length ?X0 \<and>
           (\<forall>r \<in> set X'. length r = length (lags s)) \<and>
           (\<forall>j < length (lags s). column X' j =
              (if 0 \<le> j \<and> j < 0 + length (lags s)
               then py_slice y (max_lag s - lags s ! (j - 0)) (- (lags s ! (j - 0)))
               else column ?X0 j))"
    by (rule fill_lag_columns_inv) (use b assms(2) n in auto)
  then obtain X' where X': "fill_lag_columns y (max_lag s) ?X0 0 (lags s) = Inr X'"
    "length X' = ?n" "\<forall>r \<in> set X'. length r = length (lags s)"
    "\<forall>j < length (lags s). column X' j = py_slice y (max_lag s - lags s ! j) (- (lags s ! j))"
    by auto
  have "\<forall>i < length (lags s). column X' i =
              py_slice y (max_lag s - lags s ! i) (int (length y) - lags s ! i)"
  proof (intro allI impI)
    fix i assume i: "i < length (lags s)"
    then have "lags s ! i \<in> set (lags s)" by simp
    then have "1 \<le> lags s ! i" "lags s ! i \<le> int (length y)" using b assms(2) by force+
    then show "column X' i = py_slice y (max_lag s - lags s ! i) (int (length y) - lags s ! i)"
      using X'(4) i py_slice_neg_stop by metis
  qed
  then show ?thesis using X' n assms(2) by (simp add: create_lags_def)
qed

lemma length_py_slice_from: "length (py_slice_from xs a) = length xs - py_bound (length xs) a"
  by (simp add: py_slice_from_def)

lemma length_diff1: "length (diff1 xs) = length xs - 1"
  by (induction xs rule: diff1.induct) auto

lemma length_diff_passes: "length (fst (diff_passes k xs)) = length xs - k"
  by (induction k arbitrary: xs) (simp_all add: case_prod_unfold Let_def length_diff1)

lemma length_fit_transform: "length (fst (fit_transform d xs)) = max (order d) (length xs)"
  using length_diff_passes[of "order d" xs] by (simp add: fit_transform_def case_prod_unfold Let_def)


lemma create_lags_cong:
  "lags s' = lags s \<Longrightarrow> max_lag s' = max_lag s \<Longrightarrow> create_lags s' y = create_lags s y"
  by (auto simp: create_lags_def split: sum.splits)

lemma create_lags_Inr_length:
  assumes "init_ok s" "create_lags s y = Inr (X, yt)"
  shows "max_lag s < int (length y) \<and> length X = length y - nat (max_lag s) \<and>
         length yt = length y - nat (max_lag s)"
proof -
  have m: "max_lag s < int (length y)"
    using assms(2) create_lags_short[of y s] by (cases "max_lag s < int (length y)") auto
  have mp: "1 \<le> max_lag s" using assms(1) by (rule init_ok_max_lag_pos)
  from create_lags_ok[OF assms(1) m] assms(2) m mp show ?thesis
    by (auto simp: py_slice_from_def py_bound_def)
qed

lemma transform_dataframe_length:
  "transform_dataframe ext tr f xs = Inr (out, t') \<Longrightarrow> length out = length xs"
  by (auto simp: transform_dataframe_def split: option.splits prod.splits if_splits)

lemma transform_dataframe_exog_length:
  "transform_dataframe_exog ext tr f E = Inr (out, t') \<Longrightarrow> length out = length E"
  by (auto simp: transform_dataframe_exog_def split: option.splits prod.splits if_splits)


lemma differentiate_train_Inr:
  assumes "init_ok s0" "lags s = lags s0" "max_lag s = max_lag s0"
    "differentiation s = differentiation s0" "differentiator s = differentiator s0"
    "differentiate_train s xs = (Inr ys, s2)"
  shows "length ys = max (diff_order s0) (length xs) \<and> lags s2 = lags s0 \<and> max_lag s2 = max_lag s0 \<and>
         differentiation s2 = differentiation s0 \<and> transformer_exog s2 = transformer_exog s \<and>
         is_fitted s2 = is_fitted s"
  using assms
  by (auto simp: differentiate_train_def diff_order_def init_ok_def length_fit_transform
           split: option.splits if_splits)

lemma exog_train_Inr:
  assumes "exog_train ext s n exog = (Inr ex, s3)"
  shows "lags s3 = lags s \<and> max_lag s3 = max_lag s \<and> differentiation s3 = differentiation s \<and>
         (case ex of None \<Rightarrow> exog = None | Some E' \<Rightarrow> length E' = n)"
  using assms
  by (auto simp: exog_train_def split: option.splits if_splits sum.splits prod.splits
           dest: transform_dataframe_exog_length)


lemma create_train_X_y_steps:
  assumes "create_train_X_y ext s y exog = (Inr (X, yt), s')"
  obtains yT ty yv s2 ex s3 Xd yd where
    "check_y ext y = None"
    "transform_dataframe ext (transformer_y s) (\<not> is_fitted s) y = Inr (yT, ty)"
    "differentiate_train (s\<lparr>transformer_y := ty\<rparr>) yT = (Inr yv, s2)"
    "exog_train ext s2 (length y) exog = (Inr ex, s3)"
    "create_lags s3 yv = Inr (Xd, yd)"
    "length Xd = length (py_slice_from y (max_lag s3))"
    "length yd = length (py_slice_from y (max_lag s3))"
    "X = py_slice_from (case ex of None \<Rightarrow> Xd
          | Some E' \<Rightarrow> map (\<lambda>(r, e). r @ e) (zip Xd (py_slice_from E' (max_lag s3))))
          (case differentiation s3 of None \<Rightarrow> 0 | Some d \<Rightarrow> int d)"
    "yt = py_slice_from yd (case differentiation s3 of None \<Rightarrow> 0 | Some d \<Rightarrow> int d)"
    "s' = s3"
  using assms unfolding create_train_X_y_def
  by (auto split: option.splits sum.splits prod.splits if_splits simp: with_index_def Let_def)

lemma py_bound_nonneg: "0 \<le> a \<Longrightarrow> py_bound n a = min n (nat a)"
  by (simp add: py_bound_def)

lemma create_train_X_y_rows:
  assumes ok: "init_ok s" and r: "create_train_X_y ext s y exog = (Inr (X, yt), s')"
  shows "max_lag s < int (length y) \<and>
         int (length X) = max 0 (int (length y) - max_lag s - int (diff_order s)) \<and>
         length yt = length X"
proof -
  from r obtain yT ty yv s2 ex s3 Xd yd where st:
    "transform_dataframe ext (transformer_y s) (\<not> is_fitted s) y = Inr (yT, ty)"
    "differentiate_train (s\<lparr>transformer_y := ty\<rparr>) yT = (Inr yv, s2)"
    "exog_train ext s2 (length y) exog = (Inr ex, s3)"
    "create_lags s3 yv = Inr (Xd, yd)"
    "length Xd = length (py_slice_from y (max_lag s3))"
    "length yd = length (py_slice_from y (max_lag s3))"
    "X = py_slice_from (case ex of None \<Rightarrow> Xd
          | Some E' \<Rightarrow> map (\<lambda>(r, e). r @ e) (zip Xd (py_slice_from E' (max_lag s3))))
          (case differentiation s3 of None \<Rightarrow> 0 | Some d \<Rightarrow> int d)"
    "yt = py_slice_from yd (case differentiation s3 of None \<Rightarrow> 0 | Some d \<Rightarrow> int d)"
    by (rule create_train_X_y_steps) blast
  have lT: "length yT = length y" using st(1) by (rule transform_dataframe_length)
  have d: "length yv = max (diff_order s) (length y)" "lags s2 = lags s" "max_lag s2 = max_lag s"
     "differentiation s2 = differentiation s"
    using differentiate_train_Inr[OF ok _ _ _ _ st(2)] lT by simp_all
  have e: "lags s3 = lags s" "max_lag s3 = max_lag s" "differentiation s3 = differentiation s"
    "case ex of None \<Rightarrow> exog = None | Some E' \<Rightarrow> length E' = length y"
    using exog_train_Inr[OF st(3)] d by simp_all
  have mp: "1 \<le> max_lag s" using ok by (rule init_ok_max_lag_pos)
  have c: "create_lags s yv = Inr (Xd, yd)" using st(4) create_lags_cong[of s3 s yv] e by simp
  have cl: "max_lag s < int (length yv)" "length Xd = length yv - nat (max_lag s)"
    using create_lags_Inr_length[OF ok c] by simp_all
  have ly: "length Xd = length y - nat (max_lag s)"
    using st(5) e(2) mp by (simp add: py_slice_from_def py_bound_def)
  have lyd: "length yd = length y - nat (max_lag s)"
    using st(6) e(2) mp by (simp add: py_slice_from_def py_bound_def)
  have n: "max_lag s < int (length y)" using cl ly mp by linarith
  have lX: "length (case ex of None \<Rightarrow> Xd
          | Some E' \<Rightarrow> map (\<lambda>(r, e). r @ e) (zip Xd (py_slice_from E' (max_lag s3))))
        = length y - nat (max_lag s)"
    using e(4) ly e(2) mp by (auto split: option.splits simp: py_slice_from_def py_bound_def)
  have dd: "(case differentiation s3 of None \<Rightarrow> 0 | Some d \<Rightarrow> int d) = int (diff_order s)"
    using e(3) by (simp add: diff_order_def split: option.splits)
  have "length X = (length y - nat (max_lag s)) - diff_order s"
    unfolding st(7) dd using lX by (simp add: py_slice_from_def py_bound_def)
  moreover have "length yt = (length y - nat (max_lag s)) - diff_order s"
    unfolding st(8) dd using lyd by (simp add: py_slice_from_def py_bound_def)
  ultimately show ?thesis using n mp by auto
qed

lemma create_train_X_y_returns:
  assumes ok: "init_ok s" and chk: "check_y ext y = None"
    and tr: "transform_dataframe ext (transformer_y s) (\<not> is_fitted s) y = Inr (yT, ty)"
    and n: "max_lag s < int (length y)" and dn: "diff_order s \<le> length y"
  shows "\<exists>X yt s'. create_train_X_y ext s y None = (Inr (X, yt), s')"
proof -
  let ?s1 = "s\<lparr>transformer_y := ty\<rparr>"
  have lT: "length yT = length y" using tr by (rule transform_dataframe_length)
  obtain yv s2 where dt: "differentiate_train ?s1 yT = (Inr yv, s2)"
    using ok by (cases "is_fitted s") (auto simp: differentiate_train_def init_ok_def split: option.splits)
  have d: "length yv = max (diff_order s) (length y)" "lags s2 = lags s" "max_lag s2 = max_lag s"
     "differentiation s2 = differentiation s"
    using differentiate_train_Inr[OF ok _ _ _ _ dt] lT by simp_all
  have lv: "length yv = length y" using d(1) dn by simp
  have ex: "exog_train ext s2 (length y) None = (Inr None, s2)" by (simp add: exog_train_def)
  have "max_lag s < int (length yv)" using n lv by simp
  from create_lags_ok[OF ok this] obtain Xd where
    c: "create_lags s yv = Inr (Xd, py_slice_from yv (max_lag s))"
       "length Xd = length yv - nat (max_lag s)" by blast
  have c2: "create_lags s2 yv = Inr (Xd, py_slice_from yv (max_lag s))"
    using c(1) create_lags_cong[of s2 s yv] d by simp
  have mp: "1 \<le> max_lag s" using ok by (rule init_ok_max_lag_pos)
  have w1: "length Xd = length (py_slice_from y (max_lag s2))"
    using c(2) lv d(3) mp by (simp add: py_slice_from_def py_bound_def)
  have w2: "length (py_slice_from yv (max_lag s)) = length (py_slice_from y (max_lag s2))"
    using lv d(3) by (simp add: py_slice_from_def)
  show ?thesis
    unfolding create_train_X_y_def using chk tr dt ex c2 w1 w2
    by (simp add: with_index_def Let_def)
qed


lemma forecaster_init_ok: "forecaster_init reg ls ty te diff = Inr s \<Longrightarrow> init_ok s"
  by (auto simp: forecaster_init_def init_ok_def not_less split: if_splits option.splits)

lemma lags3_simps:
  "lags lags3 = [1, 2, 3]" "max_lag lags3 = 3" "differentiation lags3 = None"
  "transformer_y lags3 = None" "is_fitted lags3 = False" "init_ok lags3"
  by (simp_all add: lags3_def forecaster_init_def init_ok_def)

lemma lags3_diff2_simps:
  "lags lags3_diff2 = [1, 2, 3]" "max_lag lags3_diff2 = 3" "differentiation lags3_diff2 = Some 2"
  "differentiator lags3_diff2 = Some \<lparr>order = 2, last_values = []\<rparr>"
  "transformer_y lags3_diff2 = None" "is_fitted lags3_diff2 = False"
  by (simp_all add: lags3_diff2_def forecaster_init_def)

section \<open>Shared lemmas: indexing, sampling, fitting\<close>







lemma length_choice_replace: "length (fst (choice_replace ext g a k)) = k"
  by (induction k arbitrary: g) (simp_all add: case_prod_unfold Let_def)

lemma length_choice_no_replace: "length (fst (choice_no_replace ext g a k)) = k"
  by (induction k arbitrary: g a) (simp_all add: case_prod_unfold Let_def)

lemma rng_choice_length: "rng_choice ext g a k r = Inr (x, g') \<Longrightarrow> length x = k"
  using length_choice_replace[of ext g a k] length_choice_no_replace[of ext g a k]
  by (auto simp: rng_choice_def split: if_splits)

lemma rng_choice_no_replace_ok:
  "k \<le> length a \<Longrightarrow> 0 < length a \<Longrightarrow> \<exists>x g'. rng_choice ext g a k False = Inr (x, g')"
  by (auto simp: rng_choice_def)

lemma cap_bins_ok: "\<exists>d'. cap_bins ext seed d = Inr d' \<and> list_all2 cap_rel d d'"
proof (induction d)
  case Nil
  then show ?case by simp
next
  case (Cons p d)
  obtain k v where p: "p = (k, v)" by (cases p)
  from Cons obtain d' where d': "cap_bins ext seed d = Inr d'" "list_all2 cap_rel d d'" by blast
  show ?case
  proof (cases "200 < length v")
    case True
    then obtain x g' where c: "rng_choice ext (default_rng ext seed) v 200 False = Inr (x, g')"
      using rng_choice_no_replace_ok[of 200 v ext "default_rng ext seed"] by fastforce
    then have "length x = 200" by (rule rng_choice_length)
    then have "cap_rel (k, v) (k, x)" using True by (simp add: cap_rel_def)
    then show ?thesis using True c d' p by simp
  next
    case False
    then have "cap_rel (k, v) (k, v)" by (simp add: cap_rel_def)
    then show ?thesis using False d' p by simp
  qed
qed

lemma cap_rel_keys: "list_all2 cap_rel d d' \<Longrightarrow> map fst d' = map fst d"
  by (induction rule: list_all2_induct) (auto simp: cap_rel_def)

lemma cap_rel_le: "list_all2 cap_rel d d' \<Longrightarrow> \<forall>p \<in> set d'. length (snd p) \<le> 200"
  by (induction rule: list_all2_induct) (auto simp: cap_rel_def split: if_splits)

lemma cap_rel_nonempty:
  "list_all2 cap_rel d d' \<Longrightarrow> \<forall>p \<in> set d. snd p \<noteq> [] \<Longrightarrow> \<forall>p \<in> set d'. snd p \<noteq> []"
  by (induction rule: list_all2_induct) (auto simp: cap_rel_def split: if_splits)

lemma cap_rel_small:
  "list_all2 cap_rel d d' \<Longrightarrow> \<forall>p \<in> set d. length (snd p) \<le> 200 \<Longrightarrow> d' = d"
  by (induction rule: list_all2_induct) (auto simp: cap_rel_def prod_eq_iff split: if_splits)

lemma groupby_bin_keys: "map fst (groupby_bin data) = sort (remdups (map fst data))"
  by (simp add: groupby_bin_def comp_def)

lemma groupby_bin_empty: "groupby_bin data = [] \<longleftrightarrow> data = []"
proof -
  have "groupby_bin data = [] \<longleftrightarrow> map fst (groupby_bin data) = []" by simp
  also have "\<dots> \<longleftrightarrow> set (sort (remdups (map fst data))) = {}"
    unfolding groupby_bin_keys by (simp only: set_empty)
  also have "\<dots> \<longleftrightarrow> data = []" by simp
  finally show ?thesis .
qed

lemma groupby_bin_nonempty_values: "\<forall>p \<in> set (groupby_bin data). snd p \<noteq> []"
proof
  fix p assume "p \<in> set (groupby_bin data)"
  then obtain k where k: "k \<in> set (map fst data)" "p = (k, map snd (filter (\<lambda>q. fst q = k) data))"
    by (auto simp: groupby_bin_def)
  then obtain q where "q \<in> set data" "fst q = k" by auto
  then have "filter (\<lambda>q. fst q = k) data \<noteq> []" by (auto simp: filter_empty_conv)
  then show "snd p \<noteq> []" using k by simp
qed

lemma binning_returns:
  assumes "y_pred \<noteq> []" "y_true \<noteq> []"
  shows "\<exists>s'. binning_in_sample_residuals ext s y_true y_pred seed = (Inr (), s')"
proof -
  let ?data = "zip (map (kbins_transform ext (kbins_fit ext y_pred)) y_pred)
                   (map (\<lambda>(t, p). num_sub t p) (zip y_true y_pred))"
  have ne: "?data \<noteq> []" using assms by (cases y_pred; cases y_true) auto
  obtain d' where d': "cap_bins ext seed (groupby_bin ?data) = Inr d'"
    "list_all2 cap_rel (groupby_bin ?data) d'" using cap_bins_ok by blast
  have "d' \<noteq> []" using d'(2) ne groupby_bin_empty[of ?data] by (auto simp: list_all2_Nil2)
  then show ?thesis using d'(1) assms(1)
    by (simp add: binning_in_sample_residuals_def Let_def np_concatenate_def)
qed


lemma binning_state:
  "binning_in_sample_residuals ext s y_true y_pred seed = (r, s') \<Longrightarrow>
   s' = s\<lparr>binner := binner s',
           in_sample_residuals_by_bin_attr := in_sample_residuals_by_bin_attr s',
           in_sample_residuals_attr := in_sample_residuals_attr s',
           binner_intervals := binner_intervals s'\<rparr>"
  unfolding binning_in_sample_residuals_def Let_def
  by (auto split: sum.splits if_splits)

lemma differentiate_train_state:
  "differentiate_train s xs = (r, s') \<Longrightarrow>
   s' = s\<lparr>differentiator := differentiator s'\<rparr> \<and>
   (differentiation s = None \<longrightarrow> s' = s)"
  unfolding differentiate_train_def
  by (auto split: option.splits if_splits)

lemma exog_train_state:
  "exog_train ext s n exog = (r, s') \<Longrightarrow> s' = s\<lparr>transformer_exog := transformer_exog s'\<rparr>"
  unfolding exog_train_def
  by (auto split: option.splits if_splits sum.splits)

lemma transform_dataframe_None:
  "transform_dataframe ext None f xs = Inr (xs, None)"
  by (simp add: transform_dataframe_def)

lemma create_train_X_y_state:
  assumes "create_train_X_y ext s y exog = (r, s')"
  shows "s' = s\<lparr>transformer_y := transformer_y s', differentiator := differentiator s',
                 transformer_exog := transformer_exog s'\<rparr> \<and>
         (transformer_y s = None \<longrightarrow> transformer_y s' = None) \<and>
         (differentiation s = None \<longrightarrow> differentiator s' = differentiator s)"
proof (cases "check_y ext y")
  case (Some e)
  then have "s' = s" using assms by (simp add: create_train_X_y_def)
  then show ?thesis by simp
next
  case None
  show ?thesis
  proof (cases "transform_dataframe ext (transformer_y s) (\<not> is_fitted s) y")
    case (Inl e)
    then have "s' = s" using assms None by (simp add: create_train_X_y_def)
    then show ?thesis by simp
  next
    case (Inr p)
    obtain yT ty where p: "p = (yT, ty)" by (cases p)
    have ty: "transformer_y s = None \<longrightarrow> ty = None"
      using Inr p by (auto simp: transform_dataframe_def split: option.splits)
    obtain r2 s2 where d: "differentiate_train (s\<lparr>transformer_y := ty\<rparr>) yT = (r2, s2)"
      by (cases "differentiate_train (s\<lparr>transformer_y := ty\<rparr>) yT")
    from differentiate_train_state[OF d] have
      s2: "s2 = s\<lparr>transformer_y := ty, differentiator := differentiator s2\<rparr>"
      and b: "differentiation s = None \<longrightarrow> s2 = s\<lparr>transformer_y := ty\<rparr>" by simp_all
    have b': "differentiation s = None \<longrightarrow> differentiator s2 = differentiator s"
      using b by auto
    have t2: "transformer_y s2 = ty" by (subst s2) simp
    show ?thesis
    proof (cases r2)
      case (Inl e)
      then have "s' = s2" using assms None Inr p d by (simp add: create_train_X_y_def)
      then show ?thesis using s2 ty b' t2 by (metis forecaster.surjective forecaster.update_convs(7))
    next
      case (Inr yv)
      obtain r3 s3 where e: "exog_train ext s2 (length y) exog = (r3, s3)"
        by (cases "exog_train ext s2 (length y) exog")
      from exog_train_state[OF e] have s3: "s3 = s2\<lparr>transformer_exog := transformer_exog s3\<rparr>" .
      have "s' = s3" using assms None \<open>transform_dataframe ext (transformer_y s) (\<not> is_fitted s) y = Inr p\<close>
          p d Inr e
        by (auto simp: create_train_X_y_def Let_def split: sum.splits prod.splits)
      moreover have "transformer_y s3 = ty" "differentiator s3 = differentiator s2"
        using t2 by (subst s3, simp)+
      moreover have "s3 = s\<lparr>transformer_y := ty, differentiator := differentiator s2,
                              transformer_exog := transformer_exog s3\<rparr>"
        by (subst s3, subst s2) simp
      ultimately show ?thesis using ty b' by simp
    qed
  qed
qed


lemma init_ok_cong:
  "lags s' = lags s \<Longrightarrow> max_lag s' = max_lag s \<Longrightarrow> window_size s' = window_size s \<Longrightarrow>
   window_size_diff s' = window_size_diff s \<Longrightarrow> differentiation s' = differentiation s \<Longrightarrow>
   differentiator s' = differentiator s \<Longrightarrow> init_ok s' = init_ok s"
  by (auto simp: init_ok_def split: option.splits)

lemma create_train_X_y_differentiator:
  assumes "transformer_y s = None" "differentiation s = Some d" "differentiator s = Some ds"
    "\<not> is_fitted s" "create_train_X_y ext s y exog = (Inr (X, yt), s')"
  shows "differentiator s' = Some (snd (fit_transform ds y))"
proof -
  from assms(5) obtain yT ty yv s2 ex s3 where st:
    "transform_dataframe ext (transformer_y s) (\<not> is_fitted s) y = Inr (yT, ty)"
    "differentiate_train (s\<lparr>transformer_y := ty\<rparr>) yT = (Inr yv, s2)"
    "exog_train ext s2 (length y) exog = (Inr ex, s3)" "s' = s3"
    by (rule create_train_X_y_steps) blast
  have "yT = y" using st(1) assms(1) by (simp add: transform_dataframe_def)
  then have "differentiator s2 = Some (snd (fit_transform ds y))"
    using st(2) assms(2,3,4) by (auto simp: differentiate_train_def)
  moreover have "differentiator s3 = differentiator s2"
    using exog_train_state[OF st(3)] by (metis forecaster.select_convs(9) forecaster.surjective forecaster.update_convs(7))
  ultimately show ?thesis using st(4) by simp
qed

lemma fit_plain_state:
  assumes ok: "init_ok s0" and chk: "check_y ext y = None" and ty: "transformer_y s0 = None"
    and n: "max_lag s0 + int (diff_order s0) < int (length y)"
  shows "\<exists>s X yt. fit ext s0 y None True True = (Inr (), s) \<and>
           regressor s = regressor_fit ext X yt \<and> lags s = lags s0 \<and>
           max_lag s = max_lag s0 \<and> window_size s = window_size s0 \<and>
           window_size_diff s = window_size_diff s0 \<and> transformer_y s = None \<and>
           differentiation s = differentiation s0 \<and>
           differentiator s = fitted_differentiator s0 y \<and>
           is_fitted s \<and> \<not> exog_in_attr s \<and>
           last_window_attr s = Some (py_slice_from y (- window_size_diff s0)) \<and>
           out_sample_residuals_attr s = out_sample_residuals_attr s0 \<and>
           out_sample_residuals_by_bin_attr s = out_sample_residuals_by_bin_attr s0"
proof -
  let ?s00 = "s0\<lparr>last_window_attr := None, exog_in_attr := False,
                  in_sample_residuals_attr := None, is_fitted := False\<rparr>"
  have ok0: "init_ok ?s00" using ok by (simp add: init_ok_cong[of ?s00 s0])
  have tr: "transform_dataframe ext (transformer_y ?s00) (\<not> is_fitted ?s00) y = Inr (y, None)"
    using ty by (simp add: transform_dataframe_def)
  have mp: "1 \<le> max_lag s0" using ok by (rule init_ok_max_lag_pos)
  have do0: "diff_order ?s00 = diff_order s0" by (simp add: diff_order_def)
  have "\<exists>X yt s'. create_train_X_y ext ?s00 y None = (Inr (X, yt), s')"
    by (rule create_train_X_y_returns[OF ok0 _ tr]) (use chk n mp do0 in simp_all)
  then obtain X yt s1 where c: "create_train_X_y ext ?s00 y None = (Inr (X, yt), s1)" by blast
  from create_train_X_y_rows[OF ok0 c] have rows:
    "int (length X) = int (length y) - max_lag s0 - int (diff_order s0)"
    "length yt = length X" using n do0 by simp_all
  have ne: "X \<noteq> []" "yt \<noteq> []" using rows n by auto
  note st = create_train_X_y_state[OF c]
  have ty0: "transformer_y ?s00 = None" using ty by simp
  have s1: "s1 = ?s00\<lparr>transformer_y := transformer_y s1, differentiator := differentiator s1,
                     transformer_exog := transformer_exog s1\<rparr>" using st by blast
  have t1: "transformer_y s1 = None" using st ty0 by blast
  have d1: "differentiator s1 = fitted_differentiator s0 y"
  proof (cases "differentiation s0")
    case None
    then have "differentiation ?s00 = None" by simp
    then have "differentiator s1 = differentiator ?s00" using st by blast
    then show ?thesis using None by (simp add: fitted_differentiator_def)
  next
    case (Some d)
    then obtain ds where ds: "differentiator s0 = Some ds"
      using ok by (auto simp: init_ok_def split: option.splits)
    have "differentiator s1 = Some (snd (fit_transform ds y))"
      by (rule create_train_X_y_differentiator[OF ty0 _ _ _ c]) (use Some ds in simp_all)
    then show ?thesis using Some ds by (simp add: fitted_differentiator_def)
  qed
  let ?s2 = "s1\<lparr>regressor := regressor_fit ext X yt, is_fitted := True, exog_in_attr := False\<rparr>"
  obtain s3 where b: "binning_in_sample_residuals ext ?s2 yt (map (regressor ?s2) X) 95123 = (Inr (), s3)"
    using binning_returns[of "map (regressor ?s2) X" yt ext ?s2 95123] ne by auto
  note s3 = binning_state[OF b]
  have f1: "lags s1 = lags s0" "max_lag s1 = max_lag s0" "window_size s1 = window_size s0"
    "window_size_diff s1 = window_size_diff s0" "differentiation s1 = differentiation s0"
    "out_sample_residuals_attr s1 = out_sample_residuals_attr s0"
    "out_sample_residuals_by_bin_attr s1 = out_sample_residuals_by_bin_attr s0"
    by (subst s1, simp)+
  have f3: "lags s3 = lags s0" "max_lag s3 = max_lag s0" "window_size s3 = window_size s0"
    "window_size_diff s3 = window_size_diff s0" "differentiation s3 = differentiation s0"
    "transformer_y s3 = None" "differentiator s3 = fitted_differentiator s0 y" "is_fitted s3"
    "\<not> exog_in_attr s3" "regressor s3 = regressor_fit ext X yt"
    "out_sample_residuals_attr s3 = out_sample_residuals_attr s0"
    "out_sample_residuals_by_bin_attr s3 = out_sample_residuals_by_bin_attr s0"
    using f1 t1 d1 by (subst s3, simp)+
  have "fit ext s0 y None True True
        = (Inr (), s3\<lparr>last_window_attr := Some (py_slice_from y (- window_size_diff s3))\<rparr>)"
    using c b by (simp add: fit_def Let_def)
  then show ?thesis using f3 by auto
qed

lemma fit_plain_init_ok:
  assumes "init_ok s0" "fit ext s0 y None True True = (Inr (), s)" "check_y ext y = None"
    "transformer_y s0 = None" "max_lag s0 + int (diff_order s0) < int (length y)"
  shows "init_ok s"
proof -
  from fit_plain_state[OF assms(1,3,4,5)] assms(2) have f:
    "lags s = lags s0" "max_lag s = max_lag s0" "window_size s = window_size s0"
    "window_size_diff s = window_size_diff s0" "differentiation s = differentiation s0"
    "differentiator s = fitted_differentiator s0 y" by auto
  show ?thesis using assms(1) f
    by (auto simp: init_ok_def fitted_differentiator_def fit_transform_def case_prod_unfold Let_def
             split: option.splits)
qed

lemma mean_row_10_9_8: "mean_row [Num 10, Num 9, Num 8] = Num 9"
  by (simp add: mean_row_def)


lemma y10_length: "length y10 = 10" by (simp add: y10_def)

lemma y10_tail: "py_slice_from y10 (- 3) = [Num 8, Num 9, Num 10]"
  by (simp add: y10_def py_slice_from_def py_bound_def upt_rec)

lemma scenario_simps:
  "check_y (scenario e) y = None"
  "regressor_fit (scenario e) X y = mean_row"
  "check_predict_input (scenario e) steps fitted ex w lw exog =
     (if \<not> fitted then Some NotFittedError
      else if steps = 0 then Some ValueError
      else (case lw of None \<Rightarrow> Some ValueError
            | Some v \<Rightarrow> if int (length v) < w then Some ValueError else None))"
  by (simp_all add: scenario_def)

lemma lags3_window: "window_size_diff lags3 = 3" "out_sample_residuals_attr lags3 = None"
  "out_sample_residuals_by_bin_attr lags3 = None" "differentiator lags3 = None"
  "regressor lags3 = mean_row"
  by (simp_all add: lags3_def forecaster_init_def)

lemma lags3_fitted_simps:
  "fit (scenario [0, 1]) lags3 y10 None True True = (Inr (), lags3_fitted)"
  "regressor lags3_fitted = mean_row" "lags lags3_fitted = [1, 2, 3]"
  "window_size_diff lags3_fitted = 3" "transformer_y lags3_fitted = None"
  "differentiation lags3_fitted = None" "is_fitted lags3_fitted" "\<not> exog_in_attr lags3_fitted"
  "last_window_attr lags3_fitted = Some [Num 8, Num 9, Num 10]"
  "out_sample_residuals_attr lags3_fitted = None"
  "out_sample_residuals_by_bin_attr lags3_fitted = None"
proof -
  have "\<exists>s X yt. fit (scenario [0, 1]) lags3 y10 None True True = (Inr (), s) \<and>
           regressor s = regressor_fit (scenario [0, 1]) X yt \<and> lags s = lags lags3 \<and>
           max_lag s = max_lag lags3 \<and> window_size s = window_size lags3 \<and>
           window_size_diff s = window_size_diff lags3 \<and> transformer_y s = None \<and>
           differentiation s = differentiation lags3 \<and>
           differentiator s = fitted_differentiator lags3 y10 \<and>
           is_fitted s \<and> \<not> exog_in_attr s \<and>
           last_window_attr s = Some (py_slice_from y10 (- window_size_diff lags3)) \<and>
           out_sample_residuals_attr s = out_sample_residuals_attr lags3 \<and>
           out_sample_residuals_by_bin_attr s = out_sample_residuals_by_bin_attr lags3"
    by (rule fit_plain_state) (simp_all add: lags3_simps scenario_simps y10_length diff_order_def)
  then obtain s X yt where s: "fit (scenario [0, 1]) lags3 y10 None True True = (Inr (), s)"
    "regressor s = regressor_fit (scenario [0, 1]) X yt" "lags s = lags lags3"
    "window_size_diff s = window_size_diff lags3" "transformer_y s = None"
    "differentiation s = differentiation lags3" "is_fitted s" "\<not> exog_in_attr s"
    "last_window_attr s = Some (py_slice_from y10 (- window_size_diff lags3))"
    "out_sample_residuals_attr s = out_sample_residuals_attr lags3"
    "out_sample_residuals_by_bin_attr s = out_sample_residuals_by_bin_attr lags3"
    by blast
  have e: "lags3_fitted = s" using s(1) by (simp add: lags3_fitted_def)
  show "fit (scenario [0, 1]) lags3 y10 None True True = (Inr (), lags3_fitted)"
    "regressor lags3_fitted = mean_row" "lags lags3_fitted = [1, 2, 3]"
    "window_size_diff lags3_fitted = 3" "transformer_y lags3_fitted = None"
    "differentiation lags3_fitted = None" "is_fitted lags3_fitted" "\<not> exog_in_attr lags3_fitted"
    "last_window_attr lags3_fitted = Some [Num 8, Num 9, Num 10]"
    "out_sample_residuals_attr lags3_fitted = None"
    "out_sample_residuals_by_bin_attr lags3_fitted = None"
    unfolding e using s by (simp_all add: scenario_simps lags3_simps lags3_window y10_tail)
qed

lemma differentiate_window_state:
  "differentiate_window s w = (r, s') \<Longrightarrow>
   s' = s\<lparr>differentiator := differentiator s'\<rparr> \<and> (differentiation s = None \<longrightarrow> s' = s)"
  unfolding differentiate_window_def by (auto split: option.splits)

lemma create_predict_inputs_state:
  assumes "create_predict_inputs ext s steps lw exog pb isr br chk = (r, s')"
  shows "s' = s\<lparr>differentiator := differentiator s'\<rparr> \<and> (differentiation s = None \<longrightarrow> s' = s)"
proof -
  let ?lw = "case lw of None \<Rightarrow> last_window_attr s | Some w \<Rightarrow> Some w"
  let ?w = "transform_numpy ext (transformer_y s) False (py_slice_from (the ?lw) (- window_size_diff s))"
  obtain r1 s1 where d: "differentiate_window s ?w = (r1, s1)" by (cases "differentiate_window s ?w")
  note ds = differentiate_window_state[OF d]
  have "s' = s \<or> s' = s1"
    using assms d unfolding create_predict_inputs_def Let_def
    by (auto split: option.splits sum.splits if_splits prod.splits)
  then show ?thesis using ds by auto
qed

lemma create_predict_inputs_013_state:
  assumes "create_predict_inputs_013 ext s steps lw exog = (r, s')"
  shows "s' = s\<lparr>differentiator := differentiator s'\<rparr> \<and> (differentiation s = None \<longrightarrow> s' = s)"
proof -
  have "s' = s \<or> (\<exists>w r1. differentiate_window s w = (r1, s'))"
    using assms unfolding create_predict_inputs_013_def Let_def
    by (auto split: option.splits sum.splits if_splits prod.splits)
  then show ?thesis using differentiate_window_state by auto
qed

lemma predict_state:
  "snd (predict ext s steps lw exog chk) = snd (create_predict_inputs ext s steps lw exog False True False chk)"
  unfolding predict_def by (auto split: sum.splits prod.splits)

lemma predict_bootstrapping_state:
  "snd (predict_bootstrapping ext s steps lw exog n_boot seed isr br)
   = snd (create_predict_inputs ext s steps lw exog True isr br True)"
  unfolding predict_bootstrapping_def Let_def by (auto split: sum.splits prod.splits)

lemma predict_013_state:
  "snd (predict_013 ext s steps lw exog) = snd (create_predict_inputs_013 ext s steps lw exog)"
  unfolding predict_013_def by (auto split: sum.splits prod.splits)

lemma lags3_diff1_simps:
  "lags lags3_diff1 = [1, 2, 3]" "max_lag lags3_diff1 = 3" "window_size lags3_diff1 = 3"
  "differentiation lags3_diff1 = Some 1" "window_size_diff lags3_diff1 = 4"
  "differentiator lags3_diff1 = Some \<lparr>order = 1, last_values = []\<rparr>"
  "transformer_y lags3_diff1 = None" "regressor lags3_diff1 = mean_row" "init_ok lags3_diff1"
  by (simp_all add: lags3_diff1_def forecaster_init_def init_ok_def)

lemma y10_last: "y10 \<noteq> []" "last y10 = Num 10"
  by (simp_all add: y10_def upt_rec)

lemma y10_tail4: "py_slice_from y10 (- 4) = [Num 7, Num 8, Num 9, Num 10]"
  by (simp add: y10_def py_slice_from_def py_bound_def upt_rec)

lemma lags3_diff1_fitted_simps:
  "regressor lags3_diff1_fitted = mean_row" "lags lags3_diff1_fitted = [1, 2, 3]"
  "window_size_diff lags3_diff1_fitted = 4" "transformer_y lags3_diff1_fitted = None"
  "differentiation lags3_diff1_fitted = Some 1"
  "differentiator lags3_diff1_fitted = Some \<lparr>order = 1, last_values = [Num 10]\<rparr>"
  "is_fitted lags3_diff1_fitted" "\<not> exog_in_attr lags3_diff1_fitted"
  "last_window_attr lags3_diff1_fitted = Some [Num 7, Num 8, Num 9, Num 10]"
proof -
  have "\<exists>s X yt. fit (scenario [0, 1]) lags3_diff1 y10 None True True = (Inr (), s) \<and>
           regressor s = regressor_fit (scenario [0, 1]) X yt \<and> lags s = lags lags3_diff1 \<and>
           max_lag s = max_lag lags3_diff1 \<and> window_size s = window_size lags3_diff1 \<and>
           window_size_diff s = window_size_diff lags3_diff1 \<and> transformer_y s = None \<and>
           differentiation s = differentiation lags3_diff1 \<and>
           differentiator s = fitted_differentiator lags3_diff1 y10 \<and>
           is_fitted s \<and> \<not> exog_in_attr s \<and>
           last_window_attr s = Some (py_slice_from y10 (- window_size_diff lags3_diff1)) \<and>
           out_sample_residuals_attr s = out_sample_residuals_attr lags3_diff1 \<and>
           out_sample_residuals_by_bin_attr s = out_sample_residuals_by_bin_attr lags3_diff1"
    by (rule fit_plain_state) (simp_all add: lags3_diff1_simps scenario_simps y10_length diff_order_def)
  then obtain s X yt where s: "fit (scenario [0, 1]) lags3_diff1 y10 None True True = (Inr (), s)"
    "regressor s = regressor_fit (scenario [0, 1]) X yt" "lags s = lags lags3_diff1"
    "window_size_diff s = window_size_diff lags3_diff1" "transformer_y s = None"
    "differentiation s = differentiation lags3_diff1"
    "differentiator s = fitted_differentiator lags3_diff1 y10" "is_fitted s" "\<not> exog_in_attr s"
    "last_window_attr s = Some (py_slice_from y10 (- window_size_diff lags3_diff1))"
    by blast
  have e: "lags3_diff1_fitted = s" using s(1) by (simp add: lags3_diff1_fitted_def)
  have fd: "fitted_differentiator lags3_diff1 y10 = Some \<lparr>order = 1, last_values = [Num 10]\<rparr>"
    by (simp add: fitted_differentiator_def lags3_diff1_simps fit_transform_def y10_last
          case_prod_unfold Let_def)
  show "regressor lags3_diff1_fitted = mean_row" "lags lags3_diff1_fitted = [1, 2, 3]"
    "window_size_diff lags3_diff1_fitted = 4" "transformer_y lags3_diff1_fitted = None"
    "differentiation lags3_diff1_fitted = Some 1"
    "differentiator lags3_diff1_fitted = Some \<lparr>order = 1, last_values = [Num 10]\<rparr>"
    "is_fitted lags3_diff1_fitted" "\<not> exog_in_attr lags3_diff1_fitted"
    "last_window_attr lags3_diff1_fitted = Some [Num 7, Num 8, Num 9, Num 10]"
    unfolding e using s fd by (simp_all add: scenario_simps lags3_diff1_simps y10_tail4)
qed

lemma create_predict_inputs_missing_pool:
  assumes "(\<not> br \<and> out_sample_residuals_attr s = None) \<or>
           (br \<and> out_sample_residuals_by_bin_attr s = None)"
  shows "create_predict_inputs ext s steps lw exog True False br True
         = (Inl (case check_predict_input ext steps (is_fitted s) (exog_in_attr s)
                        (window_size_diff s)
                        (case lw of None \<Rightarrow> last_window_attr s | Some w \<Rightarrow> Some w) exog of
                   Some e \<Rightarrow> e | None \<Rightarrow> ValueError), s)"
  using assms
  by (auto simp: create_predict_inputs_def check_out_sample_residuals_def Let_def
           split: option.splits)

lemma recursive_step_013_eq:
  "recursive_step ext s steps exog NoResiduals i (buf, preds, rng)
   = map_sum id (\<lambda>(b, p). (b, p, rng)) (recursive_step_013 s steps exog i (buf, preds))"
  by (simp add: recursive_step_def recursive_step_013_def step_residual_def Let_def
           split: sum.splits option.splits)

lemma recursive_loop_013_eq:
  "recursive_loop ext s steps exog NoResiduals is (buf, preds, rng)
   = map_sum id (\<lambda>(b, p). (b, p, rng)) (recursive_loop_013 s steps exog is (buf, preds))"
proof (induction "is" arbitrary: buf preds)
  case Nil
  then show ?case by simp
next
  case (Cons i rest)
  show ?case
  proof (cases "recursive_step_013 s steps exog i (buf, preds)")
    case (Inl e)
    then show ?thesis using recursive_step_013_eq[of ext s steps exog i buf preds rng] by simp
  next
    case (Inr st)
    obtain b p where st: "st = (b, p)" by (cases st)
    show ?thesis
      using recursive_step_013_eq[of ext s steps exog i buf preds rng] Inr st Cons.IH[of b p]
      by simp
  qed
qed

lemma recursive_predict_013_eq:
  "recursive_predict ext s steps w exog NoResiduals rng
   = map_sum id (\<lambda>p. (p, rng)) (recursive_predict_013 s steps w exog)"
  unfolding recursive_predict_def recursive_predict_013_def recursive_loop_013_eq
  by (auto split: sum.splits)

lemma recursive_step_013_length:
  "recursive_step_013 s steps exog i (buf, preds) = Inr (b, p) \<Longrightarrow> length p = length preds"
  by (auto simp: recursive_step_013_def Let_def split: sum.splits option.splits)

lemma recursive_loop_013_length:
  "recursive_loop_013 s steps exog is (buf, preds) = Inr (b, p) \<Longrightarrow> length p = length preds"
proof (induction "is" arbitrary: buf preds)
  case Nil
  then show ?case by simp
next
  case (Cons i rest)
  then obtain b1 p1 where st: "recursive_step_013 s steps exog i (buf, preds) = Inr (b1, p1)"
    "recursive_loop_013 s steps exog rest (b1, p1) = Inr (b, p)"
    by (auto split: sum.splits)
  then show ?case using Cons.IH[OF st(2)] recursive_step_013_length[OF st(1)] by simp
qed

lemma recursive_predict_013_length:
  "recursive_predict_013 s steps w exog = Inr p \<Longrightarrow> length p = steps"
  unfolding recursive_predict_013_def
  by (auto split: sum.splits dest: recursive_loop_013_length)

lemma length_cumsum_from: "length (cumsum_from a xs) = length xs"
  by (induction xs arbitrary: a) simp_all

lemma length_undo_passes: "length (undo_passes as xs) = length xs"
  by (induction as) (simp_all add: length_cumsum_from)

lemma undifferentiate_length: "undifferentiate s p = Inr l \<Longrightarrow> length l = length p"
  by (auto simp: undifferentiate_def inverse_transform_next_window_def length_undo_passes
           split: option.splits)

lemma init_ok_differentiate_window:
  "init_ok s \<Longrightarrow> \<exists>v s1. differentiate_window s w = (Inr v, s1)"
  by (auto simp: init_ok_def differentiate_window_def split: option.splits)

lemma exog_predict_cong:
  "transformer_exog s' = transformer_exog s \<Longrightarrow> exog_predict ext s' steps exog = exog_predict ext s steps exog"
  by (simp add: exog_predict_def split: option.splits)

lemma transform_series_row_preserving:
  assumes "\<forall>t xs. length (tr_transform ext t xs) = length xs"
  shows "transform_series ext tr False xs = Inr (transform_numpy ext tr False xs)"
  using assms by (simp add: transform_series_def transform_numpy_def split: option.splits)

lemma transform_series_inverse:
  "transform_series ext tr True xs = with_index (length xs) (transform_numpy ext tr True xs)"
  by (simp add: transform_series_def transform_numpy_def with_index_def Let_def split: option.splits)

lemma create_predict_inputs_013_eq:
  assumes ok: "init_ok s" and rp: "\<forall>t xs. length (tr_transform ext t xs) = length xs"
  shows "fst (create_predict_inputs ext s steps lw exog False True False True)
         = fst (create_predict_inputs_013 ext s steps lw exog) \<and>
         (\<forall>v. fst (create_predict_inputs ext s steps lw exog False True False True) = Inr v \<longrightarrow>
            snd (create_predict_inputs ext s steps lw exog False True False True)
            = snd (create_predict_inputs_013 ext s steps lw exog))"
proof -
  let ?lw = "case lw of None \<Rightarrow> last_window_attr s | Some w \<Rightarrow> Some w"
  show ?thesis
  proof (cases "check_predict_input ext steps (is_fitted s) (exog_in_attr s) (window_size_diff s) ?lw exog")
    case (Some e)
    then show ?thesis
      by (simp add: create_predict_inputs_def create_predict_inputs_013_def Let_def)
  next
    case None
    note chk = None
    show ?thesis
    proof (cases ?lw)
      case None
      then show ?thesis using chk
        by (simp add: create_predict_inputs_def create_predict_inputs_013_def Let_def
              check_out_sample_residuals_def)
    next
      case (Some w)
      let ?t = "transform_numpy ext (transformer_y s) False (py_slice_from w (- window_size_diff s))"
      obtain v s1 where d: "differentiate_window s ?t = (Inr v, s1)"
        using init_ok_differentiate_window[OF ok] by blast
      have te: "transformer_exog s1 = transformer_exog s"
        using differentiate_window_state[OF d]
        by (metis forecaster.select_convs(7) forecaster.surjective forecaster.update_convs(9))
      have ex: "exog_predict ext s1 steps exog = exog_predict ext s steps exog"
        using te by (rule exog_predict_cong)
      have ts: "transform_series ext (transformer_y s) False (py_slice_from w (- window_size_diff s)) = Inr ?t"
        using rp by (rule transform_series_row_preserving)
      show ?thesis using chk Some d ex ts
        by (cases "exog_predict ext s steps exog")
           (simp_all add: create_predict_inputs_def create_predict_inputs_013_def Let_def
              check_out_sample_residuals_def)
    qed
  qed
qed

lemma lags3_fitted_init_ok: "init_ok lags3_fitted"
  by (rule fit_plain_init_ok[of lags3 "scenario [0, 1]" y10])
     (simp_all add: lags3_simps lags3_fitted_simps scenario_simps y10_length diff_order_def)

section \<open>Shared lemmas: residual pools\<close>

lemma bin_intervals_closed: "bin_intervals edges = closed_intervals edges"
  by (auto simp: bin_intervals_def closed_intervals_def)

lemma binning_Inr:
  assumes "binning_in_sample_residuals ext s y_true y_pred seed = (Inr (), s')"
  obtains capped where
    "cap_bins ext seed (groupby_bin (zip (map (kbins_transform ext (kbins_fit ext y_pred)) y_pred)
        (map (\<lambda>(t, p). num_sub t p) (zip y_true y_pred)))) = Inr capped"
    "capped \<noteq> []"
    "s' = s\<lparr>binner := Some (kbins_fit ext y_pred),
            in_sample_residuals_by_bin_attr := Some capped,
            in_sample_residuals_attr := Some (concat (map snd capped)),
            binner_intervals := Some (bin_intervals (kbins_fit ext y_pred))\<rparr>"
  using assms unfolding binning_in_sample_residuals_def Let_def np_concatenate_def
  by (auto split: sum.splits if_splits)

lemma fit_binning:
  assumes "fit ext s y exog slw True = (Inr (), s')"
  obtains s2 yt yp s3 where
    "binning_in_sample_residuals ext s2 yt yp 95123 = (Inr (), s3)"
    "in_sample_residuals_attr s' = in_sample_residuals_attr s3"
    "in_sample_residuals_by_bin_attr s' = in_sample_residuals_by_bin_attr s3"
    "binner s' = binner s3" "binner_intervals s' = binner_intervals s3"
  using assms unfolding fit_def Let_def
  by (auto split: sum.splits prod.splits if_splits)

lemma length_concat_capped:
  "\<forall>p \<in> set d. length (snd p) \<le> n \<Longrightarrow> length (concat (map snd d)) \<le> n * length d"
  by (induction d) auto

lemma indicator_sum:
  "distinct ks \<Longrightarrow> (\<Sum>k\<leftarrow>ks. if a = k then (1::nat) else 0) = (if a \<in> set ks then 1 else 0)"
  by (induction ks) auto

lemma group_sizes_total:
  "distinct ks \<Longrightarrow> fst ` set data \<subseteq> set ks \<Longrightarrow>
   (\<Sum>k\<leftarrow>ks. length (filter (\<lambda>p. fst p = k) data)) = length data"
proof (induction data)
  case Nil
  then show ?case by simp
next
  case (Cons x xs)
  have "(\<Sum>k\<leftarrow>ks. length (filter (\<lambda>p. fst p = k) (x # xs)))
        = (\<Sum>k\<leftarrow>ks. (if fst x = k then 1 else 0) + length (filter (\<lambda>p. fst p = k) xs))"
    by (intro arg_cong[where f = sum_list] map_cong) auto
  also have "\<dots> = (\<Sum>k\<leftarrow>ks. if fst x = k then (1::nat) else 0)
                   + (\<Sum>k\<leftarrow>ks. length (filter (\<lambda>p. fst p = k) xs))"
    by (simp add: sum_list_addf)
  also have "\<dots> = 1 + length xs"
    using Cons indicator_sum[of ks "fst x"] by auto
  finally show ?case by simp
qed

lemma groupby_bin_total: "length (concat (map snd (groupby_bin data))) = length data"
proof -
  let ?ks = "sort (remdups (map fst data))"
  have "length (concat (map snd (groupby_bin data)))
        = (\<Sum>k\<leftarrow>?ks. length (filter (\<lambda>p. fst p = k) data))"
    by (simp add: groupby_bin_def length_concat comp_def)
  also have "\<dots> = length data" by (rule group_sizes_total) auto
  finally show ?thesis .
qed

lemma groupby_bin_small:
  assumes "\<forall>k. length (filter (\<lambda>p. fst p = k) data) \<le> 200"
  shows "\<forall>p \<in> set (groupby_bin data). length (snd p) \<le> 200"
  using assms by (auto simp: groupby_bin_def)

lemma dict_set_values:
  "\<forall>p \<in> set d. length (snd p) \<le> n \<Longrightarrow> length v \<le> n \<Longrightarrow>
   \<forall>p \<in> set (dict_set d k v). length (snd p) \<le> n"
  by (induction d) (fastforce split: if_splits)+

lemma length_dict_set: "length d \<le> length (dict_set d k v)"
  by (induction d) auto

lemma add_missing_bins_values:
  "\<forall>p \<in> set d. length (snd p) \<le> 200 \<Longrightarrow> \<forall>p \<in> set (add_missing_bins d ks). length (snd p) \<le> 200"
proof (induction ks arbitrary: d)
  case Nil
  then show ?case by simp
next
  case (Cons k ks)
  have "\<forall>p \<in> set (dict_set d k []). length (snd p) \<le> 200"
    using dict_set_values[OF Cons.prems, of "[]" k] by simp
  then show ?case using Cons by simp
qed

lemma length_add_missing_bins: "length d \<le> length (add_missing_bins d ks)"
proof (induction ks arbitrary: d)
  case Nil
  then show ?case by simp
next
  case (Cons k ks)
  have "length d \<le> length (if k \<in> set (map fst d) then d else dict_set d k [])"
    using length_dict_set[of d k "[]"] by simp
  also have "\<dots> \<le> length (add_missing_bins (if k \<in> set (map fst d) then d else dict_set d k []) ks)"
    by (rule Cons.IH)
  finally show ?case by simp
qed

lemma fill_empty_bins_values:
  "fill_empty_bins ext pool d ks = Inr d' \<Longrightarrow> \<forall>p \<in> set d. length (snd p) \<le> 200 \<Longrightarrow>
   (\<forall>p \<in> set d'. length (snd p) \<le> 200) \<and> length d \<le> length d'"
proof (induction ks arbitrary: d)
  case Nil
  then show ?case by simp
next
  case (Cons k ks)
  from Cons.prems(1) obtain sample g where
    c: "rng_choice ext (default_rng ext 123) pool 200 True = Inr (sample, g)"
    and r: "fill_empty_bins ext pool (dict_set d k sample) ks = Inr d'"
    by (auto split: sum.splits)
  have "length sample = 200" using c by (rule rng_choice_length)
  then have "\<forall>p \<in> set (dict_set d k sample). length (snd p) \<le> 200"
    using dict_set_values[OF Cons.prems(2), of sample k] by simp
  from Cons.IH[OF r this] show ?case using length_dict_set[of d k sample] by auto
qed

lemma set_binned_residuals_caps:
  assumes "set_binned_residuals ext s residuals y_pred app = (Inr (), s')"
  shows "pool_caps (out_sample_residuals_by_bin_attr s') (out_sample_residuals_attr s')"
proof -
  from assms obtain merged capped in_bins filled where st:
    "cap_bins ext 123 merged = Inr capped"
    "in_sample_residuals_by_bin_attr s = Some in_bins"
    "fill_empty_bins ext (concat (map snd capped)) (add_missing_bins capped (map fst in_bins))
       (map fst (filter (\<lambda>(k, v). length v = 0) (add_missing_bins capped (map fst in_bins))))
     = Inr filled"
    "out_sample_residuals_by_bin_attr s' = Some filled"
    "out_sample_residuals_attr s' = Some (concat (map snd capped))"
    unfolding set_binned_residuals_def Let_def np_concatenate_def
    by (auto split: option.splits sum.splits if_splits)
  obtain d' where "cap_bins ext 123 merged = Inr d'" "list_all2 cap_rel merged d'"
    using cap_bins_ok by blast
  then have le: "\<forall>p \<in> set capped. length (snd p) \<le> 200" using st(1) cap_rel_le by auto
  note f = fill_empty_bins_values[OF st(3) add_missing_bins_values[OF le]]
  have "length (concat (map snd capped)) \<le> 200 * length capped"
    using le by (rule length_concat_capped)
  also have "\<dots> \<le> 200 * length filled"
    using f length_add_missing_bins[of capped "map fst in_bins"] by simp
  finally show ?thesis using f st(4,5) by (simp add: pool_caps_def)
qed

lemma length_append_up_to:
  "length (append_up_to cap stored new) \<le> max cap (length stored)"
  by (auto simp: append_up_to_def Let_def)

lemma set_flat_residuals_caps:
  assumes "set_flat_residuals ext s residuals app seed = (Inr (), s')"
    and "case out_sample_residuals_attr s of Some stored \<Rightarrow> app \<longrightarrow> length stored \<le> 1000 | None \<Rightarrow> True"
  shows "\<exists>flat. out_sample_residuals_attr s' = Some flat \<and> length flat \<le> 1000"
proof -
  have "\<exists>r'. length r' \<le> 1000 \<and>
    out_sample_residuals_attr s' =
       Some (case out_sample_residuals_attr s of
               Some stored \<Rightarrow> if app then append_up_to 1000 stored r' else r'
             | None \<Rightarrow> r')"
  proof (cases "1000 < length residuals")
    case True
    then obtain sample g where
      c: "rng_choice ext (default_rng ext seed) residuals 1000 False = Inr (sample, g)"
      using assms(1) unfolding set_flat_residuals_def by (auto split: sum.splits)
    have "length sample = 1000" using c by (rule rng_choice_length)
    then show ?thesis using assms(1) True c unfolding set_flat_residuals_def
      by (intro exI[of _ sample]) auto
  next
    case False
    then show ?thesis using assms(1) unfolding set_flat_residuals_def
      by (intro exI[of _ residuals]) auto
  qed
  then obtain r' where r: "length r' \<le> 1000"
    "out_sample_residuals_attr s' =
       Some (case out_sample_residuals_attr s of
               Some stored \<Rightarrow> if app then append_up_to 1000 stored r' else r'
             | None \<Rightarrow> r')" by blast
  show ?thesis
  proof (cases "out_sample_residuals_attr s")
    case None
    then show ?thesis using r by simp
  next
    case (Some stored)
    show ?thesis
    proof (cases app)
      case True
      then have "length stored \<le> 1000" using assms(2) Some by simp
      then have "length (append_up_to 1000 stored r') \<le> 1000"
        using length_append_up_to[of 1000 stored r'] by simp
      then show ?thesis using r Some True by simp
    next
      case False
      then show ?thesis using r Some by simp
    qed
  qed
qed

lemma binning_caps:
  assumes "binning_in_sample_residuals ext s y_true y_pred seed = (Inr (), s')"
  shows "pool_caps (in_sample_residuals_by_bin_attr s') (in_sample_residuals_attr s')"
proof -
  from assms obtain capped where c:
    "cap_bins ext seed (groupby_bin (zip (map (kbins_transform ext (kbins_fit ext y_pred)) y_pred)
        (map (\<lambda>(t, p). num_sub t p) (zip y_true y_pred)))) = Inr capped"
    "s' = s\<lparr>binner := Some (kbins_fit ext y_pred),
            in_sample_residuals_by_bin_attr := Some capped,
            in_sample_residuals_attr := Some (concat (map snd capped)),
            binner_intervals := Some (bin_intervals (kbins_fit ext y_pred))\<rparr>"
    by (rule binning_Inr) blast
  have le: "\<forall>p \<in> set capped. length (snd p) \<le> 200"
    using c(1) cap_bins_ok[of ext seed] cap_rel_le by (metis Inr_inject)
  show ?thesis unfolding c(2) using le length_concat_capped[OF le] by (simp add: pool_caps_def)
qed

lemma create_train_y_short:
  "create_train_X_y (scenario thirds) (lags3\<lparr>last_window_attr := None, exog_in_attr := False,
        in_sample_residuals_attr := None, is_fitted := False\<rparr>) y_short None
   = (Inr ([[Num 0, Num 0, Num 0], [Num 30, Num 0, Num 0]], [Num 30, Num 12]),
      lags3\<lparr>last_window_attr := None, exog_in_attr := False,
        in_sample_residuals_attr := None, is_fitted := False\<rparr>)"
  by (simp add: create_train_X_y_def scenario_def transform_dataframe_def differentiate_train_def
        exog_train_def create_lags_def lags3_def forecaster_init_def set_column_def y_short_def
        py_slice_def py_slice_from_def py_bound_def with_index_def Let_def numeral_eq_Suc)

lemma scenario_kbins: "kbins_fit (scenario e) p = e" "kbins_transform (scenario e) = ordinal_bin"
  by (simp_all add: scenario_def)

lemma ordinal_bin_thirds: "ordinal_bin thirds (Num 0) = 0" "ordinal_bin thirds (Num 10) = 2"
  by (simp_all add: ordinal_bin_def thirds_def)

lemma fit_y_short:
  "fit (scenario thirds) lags3 y_short None True True
   = (Inr (), lags3\<lparr>regressor := mean_row, is_fitted := True,
                     binner := Some thirds,
                     in_sample_residuals_by_bin_attr := Some [(0, [Num 30]), (2, [Num 2])],
                     in_sample_residuals_attr := Some [Num 30, Num 2],
                     binner_intervals := Some (bin_intervals thirds),
                     last_window_attr := Some [Num 0, Num 30, Num 12]\<rparr>)"
  unfolding fit_def Let_def create_train_y_short
  by (simp add: binning_in_sample_residuals_def scenario_simps mean_row_def groupby_bin_def
        np_concatenate_def ordinal_bin_thirds Let_def lags3_def forecaster_init_def
        py_slice_from_def py_bound_def y_short_def scenario_def)

lemma blocks6_groups:
  "length (filter (\<lambda>p. fst p = k)
      (zip (map (ordinal_bin [0, 1, 2, 3, 4, 5, 6]) blocks6)
           (map (\<lambda>(t, p). num_sub t p) (zip blocks6 blocks6)))) \<le> 200"
  by (auto simp: blocks6_def ordinal_bin_def filter_replicate)

lemma blocks6_bins:
  "map (\<lambda>p. (fst p, length (snd p)))
     (groupby_bin (zip (map (ordinal_bin [0, 1, 2, 3, 4, 5, 6]) blocks6)
                       (map (\<lambda>(t, p). num_sub t p) (zip blocks6 blocks6))))
   = [(0, 200), (1, 200), (2, 200), (3, 200), (4, 200), (5, 200)]"
proof -
  let ?data = "zip (map (ordinal_bin [0, 1, 2, 3, 4, 5, 6]) blocks6)
                   (map (\<lambda>(t, p). num_sub t p) (zip blocks6 blocks6))"
  have f: "map fst ?data = concat (map (\<lambda>k. replicate 200 k) [0, 1, 2, 3, 4, 5])"
    by (simp add: blocks6_def ordinal_bin_def zip_replicate map_fst_zip_take)
  have "set (map fst ?data) = {0, 1, 2, 3, 4, 5}" unfolding f by auto
  then have "sort (remdups (map fst ?data)) = sorted_list_of_set {0, 1, 2, 3, 4, 5 :: nat}"
    by (metis sorted_list_of_set_sort_remdups)
  then have k: "sort (remdups (map fst ?data)) = [0, 1, 2, 3, 4, 5]" by simp
  have l: "\<And>k. length (filter (\<lambda>p. fst p = k) ?data) = length (filter (\<lambda>b. b = k) (map fst ?data))"
    by (simp only: filter_map length_map comp_def)
  have c: "\<And>k. length (filter (\<lambda>b. b = k) (map fst ?data))
              = (if k \<in> {0, 1, 2, 3, 4, 5} then 200 else 0)"
    unfolding f by (auto simp: filter_replicate)
  have c': "\<And>k. length (map snd (filter (\<lambda>p. fst p = k) ?data))
              = (if k \<in> {0, 1, 2, 3, 4, 5} then 200 else 0)"
    by (simp only: length_map l c)
  show ?thesis
    unfolding groupby_bin_def k by (simp only: list.map fst_conv snd_conv c') simp
qed


section \<open>Direct prediction: the inputs and the regressors\<close>

lemma py_take_length: "py_take xs js = Inr r \<Longrightarrow> length r = length js"
  by (induction js arbitrary: r) (auto split: sum.splits)

lemma lookup_regressors_Inr:
  "lookup_regressors m S = Inr rs \<Longrightarrow> rs = map (\<lambda>step. the (regressors_attr m step)) S"
  by (induction S arbitrary: rs) (auto split: option.splits sum.splits)

lemma lookup_regressors_other:
  "h \<notin> set S \<Longrightarrow>
   lookup_regressors (m\<lparr>regressors_attr := (regressors_attr m)(h := r)\<rparr>) S = lookup_regressors m S"
  by (induction S) (auto split: option.splits sum.splits)

lemma collect_lags_regressors:
  "collect_lags ext (m\<lparr>regressors_attr := R\<rparr>) w names = collect_lags ext m w names"
  by (induction names) (auto split: option.splits sum.splits)

lemma direct_inputs_regressors:
  "direct_inputs ext (m\<lparr>regressors_attr := R\<rparr>) S X_lags exog = direct_inputs ext m S X_lags exog"
  by (auto simp: direct_inputs_def split: option.splits)

lemma direct_create_predict_inputs_regressors:
  "direct_create_predict_inputs ext (m\<lparr>regressors_attr := R\<rparr>) steps lw exog ci =
   direct_create_predict_inputs ext m steps lw exog ci"
  by (auto simp: direct_create_predict_inputs_def Let_def collect_lags_regressors
        direct_inputs_regressors split: option.splits sum.splits)

lemma level_transformer_regressors:
  "level_transformer (m\<lparr>regressors_attr := R\<rparr>) = level_transformer m"
  by (auto simp: level_transformer_def split: option.splits)

lemma direct_inputs_rows:
  "direct_inputs ext m S X_lags exog = Inr Xs \<Longrightarrow>
   length Xs = length S \<and> (\<forall>X \<in> set Xs. take (length X_lags) X = X_lags) \<and>
   (exog = None \<longrightarrow> Xs = replicate (length S) X_lags)"
  by (auto simp: direct_inputs_def Let_def split: option.splits sum.splits prod.splits)

lemma direct_prediction_index_length:
  "direct_prediction_index S = Inr idx \<Longrightarrow> length idx = length S"
  by (auto simp: direct_prediction_index_def dest: py_take_length split: sum.splits)

lemma direct_create_predict_inputs_Inr:
  assumes "direct_create_predict_inputs ext m steps lw exog ci = Inr (Xs, S, idx)"
  shows "S = prepare_steps_direct steps (steps_attr m)"
    and "length Xs = length S" and "length idx = length S"
    and "\<exists>w names X_lags.
           (case lw of None \<Rightarrow> direct_last_window_attr m | Some w \<Rightarrow> Some w) = Some w \<and>
           X_train_series_names_in_attr m = Some names \<and>
           collect_lags ext m w names = Inr X_lags \<and>
           (\<forall>X \<in> set Xs. take (length X_lags) X = X_lags) \<and>
           (exog = None \<longrightarrow> Xs = replicate (length S) X_lags)"
  using assms
  by (auto simp: direct_create_predict_inputs_def Let_def
           dest: direct_inputs_rows direct_prediction_index_length
           split: option.splits sum.splits if_splits)

lemma direct_predict_other_regressor:
  "h \<notin> set S \<Longrightarrow>
   direct_predict ext (m\<lparr>regressors_attr := (regressors_attr m)(h := r)\<rparr>) (StepsList S) lw exog ci
   = direct_predict ext m (StepsList S) lw exog ci"
proof -
  assume h: "h \<notin> set S"
  let ?m = "m\<lparr>regressors_attr := (regressors_attr m)(h := r)\<rparr>"
  have i: "direct_create_predict_inputs ext ?m (StepsList S) lw exog ci
         = direct_create_predict_inputs ext m (StepsList S) lw exog ci"
    by (rule direct_create_predict_inputs_regressors)
  show ?thesis
  proof (cases "direct_create_predict_inputs ext m (StepsList S) lw exog ci")
    case (Inl e)
    then show ?thesis by (simp add: direct_predict_def i)
  next
    case (Inr t)
    obtain Xs S' idx where t: "t = (Xs, S', idx)" by (cases t)
    have S': "S' = S" using direct_create_predict_inputs_Inr(1)[OF Inr[unfolded t]]
      by (simp add: prepare_steps_direct_def)
    show ?thesis
      by (auto simp: direct_predict_def i Inr t S' lookup_regressors_other[OF h]
            level_transformer_regressors split: sum.splits)
  qed
qed

lemma direct_predict_Inr:
  assumes "direct_predict ext m (StepsList S) lw exog ci = Inr p"
  shows "\<exists>Xs idx tr.
           direct_create_predict_inputs ext m (StepsList S) lw exog ci = Inr (Xs, S, idx) \<and>
           lookup_regressors m S = Inr (map (\<lambda>step. the (regressors_attr m step)) S) \<and>
           level_transformer m = Inr tr \<and>
           p = transform_numpy ext tr True
                 (map (\<lambda>(step, X). the (regressors_attr m step) X) (zip S Xs)) \<and>
           length p = length S"
proof -
  from assms obtain Xs S' idx where c:
    "direct_create_predict_inputs ext m (StepsList S) lw exog ci = Inr (Xs, S', idx)"
    by (auto simp: direct_predict_def split: sum.splits)
  have S': "S' = S" using direct_create_predict_inputs_Inr(1)[OF c]
    by (simp add: prepare_steps_direct_def)
  from assms c S' obtain rs where rs: "lookup_regressors m S = Inr rs"
    by (auto simp: direct_predict_def split: sum.splits)
  have rs': "rs = map (\<lambda>step. the (regressors_attr m step)) S"
    using rs by (rule lookup_regressors_Inr)
  from assms c S' rs obtain tr where tr: "level_transformer m = Inr tr"
    by (auto simp: direct_predict_def Let_def split: sum.splits)
  have z: "map (\<lambda>(regressor, X). regressor X) (zip rs Xs)
           = map (\<lambda>(step, X). the (regressors_attr m step) X) (zip S Xs)"
    unfolding rs' by (simp add: zip_map1 case_prod_unfold comp_def)
  have w: "with_index (length idx) (transform_numpy ext tr True
              (map (\<lambda>(step, X). the (regressors_attr m step) X) (zip S Xs))) = Inr p"
    using assms c S' rs tr z by (simp add: direct_predict_def Let_def)
  then have p: "p = transform_numpy ext tr True
                 (map (\<lambda>(step, X). the (regressors_attr m step) X) (zip S Xs))"
    "length p = length idx"
    by (auto simp: with_index_def split: if_splits)
  have "length idx = length S" using direct_create_predict_inputs_Inr(3)[OF c] S' by simp
  then show ?thesis using c S' rs rs' tr p by auto
qed

lemma direct3_simps:
  "steps_attr (direct3 c1 c2 c3) = 3" "level (direct3 c1 c2 c3) = ''y''"
  "direct_is_fitted (direct3 c1 c2 c3)" "direct_window_size (direct3 c1 c2 c3) = 3"
  "X_train_series_names_in_attr (direct3 c1 c2 c3) = Some [''y'']"
  "direct_last_window_attr (direct3 c1 c2 c3) = Some [''y'' \<mapsto> [Num 8, Num 9, Num 10]]"
  "level_transformer (direct3 c1 c2 c3) = Inr None"
  "transformer_series_attr (direct3 c1 c2 c3) = Some [''y'' \<mapsto> None]"
  "lags_attr (direct3 c1 c2 c3) = Some [''y'' \<mapsto> Some [1, 2, 3]]"
  "direct_exog_in_attr (direct3 c1 c2 c3) = False"
  "regressors_attr (direct3 c1 c2 c3) = [1 \<mapsto> (\<lambda>X. c1), 2 \<mapsto> (\<lambda>X. c2), 3 \<mapsto> (\<lambda>X. c3)]"
  "collect_lags ext (direct3 c1 c2 c3) [''y'' \<mapsto> [Num 8, Num 9, Num 10]] [''y'']
   = Inr [Num 10, Num 9, Num 8]"
  by (simp_all add: direct3_def level_transformer_def transform_numpy_def py_slice_from_def
        py_bound_def py_index_def)

lemma scenario_direct_check:
  "check_predict_input_direct (scenario e) S True x w lw ex k names
   = (if S = [] \<or> (\<exists>step \<in> set S. step < 1 \<or> k < step) then Some ValueError else None)"
  by (simp add: scenario_def)

lemma direct3_inputs:
  "direct_create_predict_inputs (scenario e) (direct3 c1 c2 c3) (StepsList [1, 3]) None None True
   = Inr ([[Num 10, Num 9, Num 8], [Num 10, Num 9, Num 8]], [1, 3], [1, 3])"
  by (simp add: direct_create_predict_inputs_def direct3_simps prepare_steps_direct_def Let_def
        scenario_direct_check direct_inputs_def direct_prediction_index_def py_max_def
        py_index_def upt_rec del: collect_lags.simps)

lemma direct3_predict:
  "direct_predict (scenario e) (direct3 c1 c2 c3) (StepsList [1, 3]) None None True = Inr [c1, c3]"
  unfolding direct_predict_def direct3_inputs
  by (simp add: direct3_simps transform_numpy_def with_index_def)


lemma py_take_upt:
  "\<forall>step \<in> set S. 1 \<le> step \<and> step \<le> k \<Longrightarrow>
   py_take [1 ..< k + 1] (map (\<lambda>step. int step - 1) S) = Inr S"
proof (induction S)
  case Nil
  then show ?case by simp
next
  case (Cons a S)
  then have a: "1 \<le> a" "a \<le> k" by simp_all
  have "[1 ..< k + 1] ! (a - 1) = 1 + (a - 1)" using a by (intro nth_upt) simp
  then have n: "[1 ..< k + 1] ! (a - 1) = a" using a by simp
  have "nat (int a - 1) = a - 1" using a by simp
  then have "py_index [1 ..< k + 1] (int a - 1) = Inr a"
    using a n by (simp add: py_index_def del: upt_Suc)
  then show ?case using Cons by (simp del: upt_Suc)
qed

lemma direct3_inputs_any:
  assumes "S \<noteq> []" "set S \<subseteq> {1, 2, 3}"
  shows "direct_create_predict_inputs (scenario e) (direct3 c1 c2 c3) (StepsList S) None None True
         = Inr (replicate (length S) [Num 10, Num 9, Num 8], S, S)"
proof -
  have b: "\<forall>step \<in> set S. 1 \<le> step \<and> step \<le> Max (set S)" using assms by auto
  have c: "\<not> (\<exists>step \<in> set S. step < 1 \<or> 3 < step)" using assms(2) by auto
  have i: "direct_prediction_index S = Inr S"
    using assms(1) py_take_upt[OF b] by (simp add: direct_prediction_index_def py_max_def)
  have z: "0 \<notin> set S" using assms(2) by auto
  show ?thesis
    using assms(1) c z
    by (simp add: direct_create_predict_inputs_def direct3_simps prepare_steps_direct_def Let_def
        scenario_direct_check direct_inputs_def i del: collect_lags.simps)
qed

lemma direct3_lookup:
  "set S \<subseteq> {1, 2, 3} \<Longrightarrow>
   lookup_regressors (direct3 c1 c2 c3) S
   = Inr (map (\<lambda>step. if step = 1 then (\<lambda>X. c1) else if step = 2 then (\<lambda>X. c2) else (\<lambda>X. c3)) S)"
  by (induction S) (auto simp: direct3_simps)

lemma map2_const_rows:
  "map (\<lambda>(regressor, X). regressor X) (zip (map f S) (replicate (length S) x)) = map (\<lambda>step. f step x) S"
  by (induction S) auto

lemma direct3_predict_any:
  assumes "S \<noteq> []" "set S \<subseteq> {1, 2, 3}"
  shows "direct_predict (scenario e) (direct3 c1 c2 c3) (StepsList S) None None True
         = Inr (map (\<lambda>step. if step = 1 then c1 else if step = 2 then c2 else c3) S)"
proof -
  have z: "map (\<lambda>(regressor, X). regressor X)
             (zip (map (\<lambda>step. if step = 1 then (\<lambda>X. c1) else if step = 2 then (\<lambda>X. c2) else (\<lambda>X. c3)) S)
                  (replicate (length S) [Num 10, Num 9, Num 8]))
           = map (\<lambda>step. if step = 1 then c1 else if step = 2 then c2 else c3) S"
    unfolding map2_const_rows by (rule map_cong) auto
  show ?thesis
    unfolding direct_predict_def direct3_inputs_any[OF assms]
    by (simp add: direct3_lookup[OF assms(2)] z direct3_simps transform_numpy_def with_index_def
          del: One_nat_def)
qed

section \<open>Bootstrapping twice\<close>

lemma fit_transform_last_values:
  "fit_transform (d\<lparr>last_values := a\<rparr>) w = fit_transform d w"
  by (simp add: fit_transform_def case_prod_unfold)

lemma fit_transform_snd:
  "snd (fit_transform d w) = d\<lparr>last_values := snd (diff_passes (order d) w)\<rparr>"
  by (simp add: fit_transform_def case_prod_unfold Let_def)

lemma predict_bootstrapping_seed:
  assumes a: "default_rng ext S' = default_rng ext S"
  shows "predict_bootstrapping ext s steps lw exog n_boot S' isr br
         = predict_bootstrapping ext s steps lw exog n_boot S isr br"
  unfolding predict_bootstrapping_def a by (rule refl)

lemma direct_predict_bootstrapping_seed:
  assumes a: "default_rng ext S' = default_rng ext S"
  shows "direct_predict_bootstrapping ext m steps lw exog n_boot S' uis
         = direct_predict_bootstrapping ext m steps lw exog n_boot S uis"
  unfolding direct_predict_bootstrapping_def a by (rule refl)

lemma differentiate_window_refit:
  assumes "differentiate_window s w = (r, s1)"
  shows "s1 = s \<or> (\<exists>d a. differentiation s \<noteq> None \<and> differentiator s = Some d \<and>
                        s1 = s\<lparr>differentiator := Some (d\<lparr>last_values := a\<rparr>)\<rparr>)"
proof (cases "differentiation s")
  case None
  then show ?thesis using assms by (simp add: differentiate_window_def)
next
  case (Some k)
  show ?thesis
  proof (cases "differentiator s")
    case None
    then show ?thesis using assms Some by (simp add: differentiate_window_def)
  next
    case (Some d)
    then have "s1 = s\<lparr>differentiator := Some (d\<lparr>last_values := snd (diff_passes (order d) w)\<rparr>)\<rparr>"
      using assms \<open>differentiation s = Some k\<close>
      by (auto simp: differentiate_window_def fit_transform_snd)
    then show ?thesis using Some \<open>differentiation s = Some k\<close> by blast
  qed
qed

lemma create_predict_inputs_refit:
  assumes "create_predict_inputs ext s steps lw exog pb isr br chk = (r, s1)"
  shows "s1 = s \<or> (\<exists>d a. differentiation s \<noteq> None \<and> differentiator s = Some d \<and>
                        s1 = s\<lparr>differentiator := Some (d\<lparr>last_values := a\<rparr>)\<rparr>)"
proof -
  let ?lw = "case lw of None \<Rightarrow> last_window_attr s | Some w \<Rightarrow> Some w"
  let ?w = "transform_numpy ext (transformer_y s) False (py_slice_from (the ?lw) (- window_size_diff s))"
  obtain r1 s2 where d: "differentiate_window s ?w = (r1, s2)" by (cases "differentiate_window s ?w")
  have "s1 = s \<or> s1 = s2"
    using assms d unfolding create_predict_inputs_def Let_def
    by (auto split: option.splits sum.splits if_splits prod.splits)
  then show ?thesis using differentiate_window_refit[OF d] by blast
qed

lemma differentiate_window_anchor:
  assumes "differentiator s = Some d" "differentiation s \<noteq> None"
  shows "differentiate_window (s\<lparr>differentiator := Some (d\<lparr>last_values := a\<rparr>)\<rparr>) w
         = differentiate_window s w"
  using assms by (auto simp: differentiate_window_def fit_transform_last_values)

lemma create_predict_inputs_anchor:
  assumes d: "differentiator s = Some d" "differentiation s \<noteq> None"
  shows "create_predict_inputs ext (s\<lparr>differentiator := Some (d\<lparr>last_values := a\<rparr>)\<rparr>)
           steps lw exog pb isr br chk
         = create_predict_inputs ext s steps lw exog pb isr br chk \<or>
         (\<exists>e. create_predict_inputs ext (s\<lparr>differentiator := Some (d\<lparr>last_values := a\<rparr>)\<rparr>)
                 steps lw exog pb isr br chk
               = (Inl e, s\<lparr>differentiator := Some (d\<lparr>last_values := a\<rparr>)\<rparr>) \<and>
              create_predict_inputs ext s steps lw exog pb isr br chk = (Inl e, s))"
proof -
  let ?s' = "s\<lparr>differentiator := Some (d\<lparr>last_values := a\<rparr>)\<rparr>"
  let ?lw = "case lw of None \<Rightarrow> last_window_attr s | Some w \<Rightarrow> Some w"
  let ?checked = "if chk
             then (case check_predict_input ext steps (is_fitted s) (exog_in_attr s)
                         (window_size_diff s) ?lw exog of
                     Some e \<Rightarrow> Some e
                   | None \<Rightarrow> check_out_sample_residuals s pb isr br)
             else None"
  have c: "check_out_sample_residuals ?s' pb isr br = check_out_sample_residuals s pb isr br"
    "(case lw of None \<Rightarrow> last_window_attr ?s' | Some w \<Rightarrow> Some w) = ?lw"
    by (simp_all add: check_out_sample_residuals_def split: option.splits)
  show ?thesis
  proof (cases ?checked)
    case (Some e)
    then have "create_predict_inputs ext ?s' steps lw exog pb isr br chk = (Inl e, ?s')"
      "create_predict_inputs ext s steps lw exog pb isr br chk = (Inl e, s)"
      by (simp_all add: create_predict_inputs_def Let_def c cong: option.case_cong if_cong)
    then show ?thesis by blast
  next
    case None
    show ?thesis
    proof (cases ?lw)
      case n: None
      then have "create_predict_inputs ext ?s' steps lw exog pb isr br chk = (Inl AttributeError, ?s')"
        "create_predict_inputs ext s steps lw exog pb isr br chk = (Inl AttributeError, s)"
        using None by (simp_all add: create_predict_inputs_def Let_def c cong: option.case_cong if_cong)
      then show ?thesis by blast
    next
      case (Some w)
      then have "create_predict_inputs ext ?s' steps lw exog pb isr br chk
                 = create_predict_inputs ext s steps lw exog pb isr br chk"
        using None by (simp add: create_predict_inputs_def Let_def c differentiate_window_anchor[OF d]
              cong: option.case_cong if_cong)
      then show ?thesis by blast
    qed
  qed
qed

lemma predict_bootstrapping_anchor:
  assumes d: "differentiator s = Some d" "differentiation s \<noteq> None"
  shows "predict_bootstrapping ext (s\<lparr>differentiator := Some (d\<lparr>last_values := a\<rparr>)\<rparr>)
           steps lw exog n_boot S isr br
         = predict_bootstrapping ext s steps lw exog n_boot S isr br \<or>
         (\<exists>e. predict_bootstrapping ext (s\<lparr>differentiator := Some (d\<lparr>last_values := a\<rparr>)\<rparr>)
                 steps lw exog n_boot S isr br
               = (Inl e, s\<lparr>differentiator := Some (d\<lparr>last_values := a\<rparr>)\<rparr>) \<and>
              predict_bootstrapping ext s steps lw exog n_boot S isr br = (Inl e, s))"
  using create_predict_inputs_anchor[OF d, of ext a steps lw exog True isr br True]
  by (auto simp: predict_bootstrapping_def)

lemma predict_bootstrapping_refit:
  "snd (predict_bootstrapping ext s steps lw exog n_boot S isr br) = s \<or>
   (\<exists>d a. differentiation s \<noteq> None \<and> differentiator s = Some d \<and>
          snd (predict_bootstrapping ext s steps lw exog n_boot S isr br)
          = s\<lparr>differentiator := Some (d\<lparr>last_values := a\<rparr>)\<rparr>)"
proof -
  have "create_predict_inputs ext s steps lw exog True isr br True
        = (fst (create_predict_inputs ext s steps lw exog True isr br True),
           snd (predict_bootstrapping ext s steps lw exog n_boot S isr br))"
    by (simp add: predict_bootstrapping_state)
  from create_predict_inputs_refit[OF this] show ?thesis .
qed

lemma predict_bootstrapping_after:
  "fst (predict_bootstrapping ext
          (snd (predict_bootstrapping ext s steps0 lw0 exog0 n_boot0 S0 isr0 br0))
          steps lw exog n_boot S isr br)
   = fst (predict_bootstrapping ext s steps lw exog n_boot S isr br)"
  using predict_bootstrapping_refit[of ext s steps0 lw0 exog0 n_boot0 S0 isr0 br0]
proof (elim disjE exE conjE)
  assume "snd (predict_bootstrapping ext s steps0 lw0 exog0 n_boot0 S0 isr0 br0) = s"
  then show ?thesis by simp
next
  fix d a
  assume a: "differentiation s \<noteq> None" "differentiator s = Some d"
    "snd (predict_bootstrapping ext s steps0 lw0 exog0 n_boot0 S0 isr0 br0)
     = s\<lparr>differentiator := Some (d\<lparr>last_values := a\<rparr>)\<rparr>"
  show ?thesis
    unfolding a(3) using predict_bootstrapping_anchor[OF a(2,1), of ext a steps lw exog n_boot S isr br]
    by auto
qed

lemma predict_bootstrapping_twice:
  "predict_bootstrapping ext
     (snd (predict_bootstrapping ext s steps lw exog n_boot S isr br))
     steps lw exog n_boot S isr br
   = predict_bootstrapping ext s steps lw exog n_boot S isr br"
  using predict_bootstrapping_refit[of ext s steps lw exog n_boot S isr br]
proof (elim disjE exE conjE)
  assume "snd (predict_bootstrapping ext s steps lw exog n_boot S isr br) = s"
  then show ?thesis by simp
next
  fix d a
  assume a: "differentiation s \<noteq> None" "differentiator s = Some d"
    "snd (predict_bootstrapping ext s steps lw exog n_boot S isr br)
     = s\<lparr>differentiator := Some (d\<lparr>last_values := a\<rparr>)\<rparr>"
  let ?s' = "s\<lparr>differentiator := Some (d\<lparr>last_values := a\<rparr>)\<rparr>"
  from predict_bootstrapping_anchor[OF a(2,1), of ext a steps lw exog n_boot S isr br]
  show ?thesis
  proof (elim disjE exE conjE)
    assume "predict_bootstrapping ext ?s' steps lw exog n_boot S isr br
            = predict_bootstrapping ext s steps lw exog n_boot S isr br"
    then show ?thesis unfolding a(3) .
  next
    fix e
    assume e: "predict_bootstrapping ext ?s' steps lw exog n_boot S isr br = (Inl e, ?s')"
      "predict_bootstrapping ext s steps lw exog n_boot S isr br = (Inl e, s)"
    then have "?s' = s" using a(3) by simp
    then show ?thesis unfolding a(3) using e by simp
  qed
qed

lemma scenario_rng:
  "default_rng (scenario e) seed = nat \<bar>seed\<bar>" "rng_next (scenario e) g n = (g, Suc g)"
  by (simp_all add: scenario_def)

lemma boot_diff1_example:
  "fst (predict_bootstrapping (scenario [0, 1])
          (lags3_diff1_fitted\<lparr>out_sample_residuals_attr := Some [Num 1, Num 2]\<rparr>)
          2 None None 3 123 False False)
   = Inr [[Num 13, Num 12, Num 13], [Num (47 / 3), Num (46 / 3), Num (47 / 3)]]"
  by (simp add: predict_bootstrapping_def create_predict_inputs_def check_out_sample_residuals_def
        differentiate_window_def transform_numpy_def exog_predict_def py_slice_from_def
        py_bound_def recursive_predict_def recursive_step_def lag_positions_def py_index_def
        py_set_def step_residual_def with_index_def mean_row_def Let_def
        fit_transform_def inverse_transform_next_window_def
        sample_residuals_def rng_choice_def rows_of_def column_def set_column_def boot_finish_def
        lags3_diff1_fitted_simps scenario_simps scenario_rng upt_rec numeral_2_eq_2 numeral_3_eq_3)
     (simp add: numeral_2_eq_2[symmetric])

lemma direct3_residuals:
  "direct_in_sample_residuals_attr (direct3 c1 c2 c3)
   = [1 \<mapsto> Some [Num 1, Num (- 1)], 2 \<mapsto> Some [Num 2, Num (- 2)], 3 \<mapsto> Some [Num 3, Num (- 3)]]"
  by (simp add: direct3_def)

lemma direct3_boot_example:
  "direct_predict_bootstrapping (scenario e) (direct3 (Num 1) (Num 2) (Num 3)) (StepsList [1, 3])
     None None 2 123 True
   = Inr [[Num 0, Num 2], [Num 0, Num 6]]"
  unfolding direct_predict_bootstrapping_def
  by (simp add: direct3_simps(1-7) direct3_residuals check_direct_residuals_def
        prepare_steps_direct_def direct3_predict Let_def transform_numpy_def
        inverse_columns_def rng_choice_def scenario_rng numeral_2_eq_2 del: One_nat_def)
     (simp add: numeral_2_eq_2[symmetric])

section \<open>The claims\<close>

text \<open>
  C2 (as amended). For a forecaster as \<open>__init__\<close> leaves it and a series of length \<open>n\<close>:
  \<open>_create_lags\<close> raises \<open>ValueError\<close> when \<open>n \<le> max_lag\<close>; otherwise it returns
  \<open>X\<close> with \<open>n - max_lag\<close> rows of \<open>|lags|\<close> entries whose column \<open>i\<close> is
  \<open>y[max_lag - lags[i] : n - lags[i]]\<close>, and the target \<open>y[max_lag:]\<close>. Whenever
  \<open>create_train_X_y\<close> returns, \<open>n > max_lag\<close> and both results have
  \<open>max(0, n - max_lag - d)\<close> rows, \<open>d\<close> being the order of differentiation (0 without);
  and it does return for a series that passes \<open>check_y\<close> and the transformer, without
  exogenous variables, when \<open>n > max_lag\<close> and \<open>n \<ge> d\<close>.
\<close>

theorem create_lags_shape:
  assumes "init_ok s"
  shows "(int (length y) \<le> max_lag s \<longrightarrow> create_lags s y = Inl ValueError) \<and>
         (max_lag s < int (length y) \<longrightarrow>
            (\<exists>X. create_lags s y = Inr (X, drop (nat (max_lag s)) y) \<and>
                  length X = length y - nat (max_lag s) \<and>
                  (\<forall>r \<in> set X. length r = length (lags s)) \<and>
                  (\<forall>i < length (lags s). column X i =
                     py_slice y (max_lag s - lags s ! i) (int (length y) - lags s ! i)))) \<and>
         (\<forall>X yt s'. create_train_X_y ext s y exog = (Inr (X, yt), s') \<longrightarrow>
            max_lag s < int (length y) \<and>
            int (length X) = max 0 (int (length y) - max_lag s - int (diff_order s)) \<and>
            length yt = length X) \<and>
         (check_y ext y = None \<and>
          (\<exists>yT ty. transform_dataframe ext (transformer_y s) (\<not> is_fitted s) y = Inr (yT, ty)) \<and>
          max_lag s < int (length y) \<and> diff_order s \<le> length y \<longrightarrow>
            (\<exists>X yt s'. create_train_X_y ext s y None = (Inr (X, yt), s')))"
proof (intro conjI impI allI)
  assume "int (length y) \<le> max_lag s"
  then show "create_lags s y = Inl ValueError" by (rule create_lags_short)
next
  assume n: "max_lag s < int (length y)"
  have mp: "1 \<le> max_lag s" using assms by (rule init_ok_max_lag_pos)
  have "py_slice_from y (max_lag s) = drop (nat (max_lag s)) y"
    using n mp by (simp add: py_slice_from_def py_bound_def)
  then show "\<exists>X. create_lags s y = Inr (X, drop (nat (max_lag s)) y) \<and>
                  length X = length y - nat (max_lag s) \<and>
                  (\<forall>r \<in> set X. length r = length (lags s)) \<and>
                  (\<forall>i < length (lags s). column X i =
                     py_slice y (max_lag s - lags s ! i) (int (length y) - lags s ! i))"
    using create_lags_ok[OF assms n] by simp
next
  fix X yt s' assume r: "create_train_X_y ext s y exog = (Inr (X, yt), s')"
  from create_train_X_y_rows[OF assms r]
  show "max_lag s < int (length y)"
    "int (length X) = max 0 (int (length y) - max_lag s - int (diff_order s))"
    "length yt = length X" by simp_all
next
  assume h: "check_y ext y = None \<and>
          (\<exists>yT ty. transform_dataframe ext (transformer_y s) (\<not> is_fitted s) y = Inr (yT, ty)) \<and>
          max_lag s < int (length y) \<and> diff_order s \<le> length y"
  then obtain yT ty where
    "transform_dataframe ext (transformer_y s) (\<not> is_fitted s) y = Inr (yT, ty)" by blast
  with h show "\<exists>X yt s'. create_train_X_y ext s y None = (Inr (X, yt), s')"
    using create_train_X_y_returns[OF assms] by blast
qed

theorem create_lags_shape_witness:
  "init_ok lags3 \<and>
   (\<exists>X. create_lags lags3 y10 = Inr (X, drop 3 y10) \<and> length X = 7 \<and>
        column X 0 = py_slice y10 2 9) \<and>
   (\<exists>X yt s'. create_train_X_y (scenario [0, 1]) lags3 y10 None = (Inr (X, yt), s'))"
proof -
  have l: "length y10 = 10" by (simp add: y10_def)
  have t: "transform_dataframe (scenario [0, 1]) (transformer_y lags3) (\<not> is_fitted lags3) y10
           = Inr (y10, None)"
    by (simp add: transform_dataframe_def lags3_simps)
  have c: "check_y (scenario [0, 1]) y10 = None" by (simp add: scenario_def)
  show ?thesis
    using create_lags_shape[of lags3 y10 "scenario [0, 1]" None] l t c
    by (simp add: lags3_simps diff_order_def) force
qed

theorem train_rows_counterexample:
  "fst (create_train_X_y (scenario [0, 1]) lags3_diff2 [Num 1, Num 2, Num 3, Num 4] None)
     = Inr ([], []) \<and>
   int (length ([] :: pyfloat list list))
     \<noteq> int (length [Num 1, Num 2, Num 3, Num 4]) - max_lag lags3_diff2 - 2"
  by (simp add: create_train_X_y_def scenario_def transform_dataframe_def differentiate_train_def
        exog_train_def create_lags_def fit_transform_def lags3_diff2_simps set_column_def
        py_slice_def py_slice_from_def py_bound_def with_index_def Let_def numeral_eq_Suc)



text \<open>
  C8 (as amended). \<open>predict\<close>, \<open>predict_bootstrapping\<close> and the legacy \<open>predict_013\<close>
  leave every field of the forecaster as it was, except the differentiator, which
  \<open>_create_predict_inputs\<close> fits on the window; a forecaster without differencing is left
  unchanged as a whole. This holds whether the call returns or raises.
\<close>

theorem predict_frame:
  "snd (predict ext s steps lw exog chk)
     = s\<lparr>differentiator := differentiator (snd (predict ext s steps lw exog chk))\<rparr> \<and>
   snd (predict_bootstrapping ext s steps lw exog n_boot seed isr br)
     = s\<lparr>differentiator :=
           differentiator (snd (predict_bootstrapping ext s steps lw exog n_boot seed isr br))\<rparr> \<and>
   snd (predict_013 ext s steps lw exog)
     = s\<lparr>differentiator := differentiator (snd (predict_013 ext s steps lw exog))\<rparr> \<and>
   (differentiation s = None \<longrightarrow>
      snd (predict ext s steps lw exog chk) = s \<and>
      snd (predict_bootstrapping ext s steps lw exog n_boot seed isr br) = s \<and>
      snd (predict_013 ext s steps lw exog) = s)"
proof -
  obtain r1 s1 where a: "create_predict_inputs ext s steps lw exog False True False chk = (r1, s1)"
    by (cases "create_predict_inputs ext s steps lw exog False True False chk")
  obtain r2 s2 where b: "create_predict_inputs ext s steps lw exog True isr br True = (r2, s2)"
    by (cases "create_predict_inputs ext s steps lw exog True isr br True")
  obtain r3 s3 where c: "create_predict_inputs_013 ext s steps lw exog = (r3, s3)"
    by (cases "create_predict_inputs_013 ext s steps lw exog")
  show ?thesis
    unfolding predict_state predict_bootstrapping_state predict_013_state a b c snd_conv
    using create_predict_inputs_state[OF a] create_predict_inputs_state[OF b]
      create_predict_inputs_013_state[OF c] by blast
qed

theorem predict_frame_witness:
  "differentiation lags3_fitted = None \<and>
   predict (scenario [0, 1]) lags3_fitted 1 None None True = (Inr [Num 9], lags3_fitted)"
proof -
  have "snd (predict (scenario [0, 1]) lags3_fitted 1 None None True) = lags3_fitted"
    using predict_frame[of "scenario [0, 1]" lags3_fitted 1 None None True]
    by (simp add: lags3_fitted_simps)
  moreover have "fst (predict (scenario [0, 1]) lags3_fitted 1 None None True) = Inr [Num 9]"
    by (simp add: predict_def create_predict_inputs_def check_out_sample_residuals_def
        differentiate_window_def transform_numpy_def exog_predict_def py_slice_from_def
        py_bound_def recursive_predict_def recursive_step_def lag_positions_def py_index_def
        py_set_def step_residual_def undifferentiate_def with_index_def mean_row_def Let_def
        lags3_fitted_simps scenario_simps)
  ultimately show ?thesis by (simp add: lags3_fitted_simps prod_eq_iff)
qed

theorem predict_frame_counterexample:
  "differentiator lags3_diff1_fitted = Some \<lparr>order = 1, last_values = [Num 10]\<rparr> \<and>
   fst (predict (scenario [0, 1]) lags3_diff1_fitted 1
          (Some [Num 20, Num 21, Num 22, Num 23]) None True) = Inr [Num 24] \<and>
   differentiator (snd (predict (scenario [0, 1]) lags3_diff1_fitted 1
          (Some [Num 20, Num 21, Num 22, Num 23]) None True))
     = Some \<lparr>order = 1, last_values = [Num 23]\<rparr>"
  by (simp add: predict_def create_predict_inputs_def check_out_sample_residuals_def
        differentiate_window_def transform_numpy_def exog_predict_def py_slice_from_def
        py_bound_def recursive_predict_def recursive_step_def lag_positions_def py_index_def
        py_set_def step_residual_def undifferentiate_def with_index_def mean_row_def Let_def
        fit_transform_def inverse_transform_next_window_def
        lags3_diff1_fitted_simps scenario_simps)

text \<open>
  C9. \<open>predict_bootstrapping\<close> with \<open>in_sample_residuals = False\<close>, when
  \<open>out_sample_residuals_\<close> is \<open>None\<close> (\<open>binned_residuals = False\<close>) or
  \<open>out_sample_residuals_by_bin_\<close> is \<open>None\<close> (\<open>binned_residuals = True\<close>): the call
  raises, the forecaster is unchanged, the error is the \<open>ValueError\<close> of the missing pool
  whenever \<open>check_predict_input\<close> accepts the arguments (it runs first and may raise its
  own error), and the outcome does not depend on the regressor: no prediction is computed.
\<close>

theorem bootstrapping_needs_out_sample_residuals:
  assumes "(\<not> br \<and> out_sample_residuals_attr s = None) \<or>
           (br \<and> out_sample_residuals_by_bin_attr s = None)"
  shows "snd (predict_bootstrapping ext s steps lw exog n_boot seed False br) = s \<and>
         (\<exists>e. fst (predict_bootstrapping ext s steps lw exog n_boot seed False br) = Inl e) \<and>
         (check_predict_input ext steps (is_fitted s) (exog_in_attr s) (window_size_diff s)
            (case lw of None \<Rightarrow> last_window_attr s | Some w \<Rightarrow> Some w) exog = None \<longrightarrow>
          fst (predict_bootstrapping ext s steps lw exog n_boot seed False br) = Inl ValueError) \<and>
         fst (predict_bootstrapping ext (s\<lparr>regressor := r\<rparr>) steps lw exog n_boot seed False br)
           = fst (predict_bootstrapping ext s steps lw exog n_boot seed False br)"
proof -
  have a: "(\<not> br \<and> out_sample_residuals_attr (s\<lparr>regressor := r\<rparr>) = None) \<or>
           (br \<and> out_sample_residuals_by_bin_attr (s\<lparr>regressor := r\<rparr>) = None)"
    using assms by simp
  show ?thesis
    unfolding predict_bootstrapping_def
      create_predict_inputs_missing_pool[OF assms] create_predict_inputs_missing_pool[OF a]
    by (simp split: option.splits)
qed

theorem bootstrapping_needs_out_sample_residuals_witness:
  "out_sample_residuals_attr lags3_fitted = None \<and>
   predict_bootstrapping (scenario [0, 1]) lags3_fitted 2 None None 5 123 False False
     = (Inl ValueError, lags3_fitted)"
  using bootstrapping_needs_out_sample_residuals[of False lags3_fitted "scenario [0, 1]" 2 None None 5 123 mean_row]
  by (simp add: lags3_fitted_simps scenario_simps prod_eq_iff)

text \<open>
  C10. For a forecaster as \<open>__init__\<close> leaves its configuration and a transformer that
  keeps the number of rows, \<open>predict\<close> and the legacy \<open>predict_013\<close> return the same
  result for the same arguments, values and raised errors alike; and on every window the
  engine \<open>_recursive_predict\<close> without residuals computes what \<open>_recursive_predict_013\<close>
  computes.
\<close>

theorem predict_013_equivalent:
  assumes "init_ok s" "\<forall>t xs. length (tr_transform ext t xs) = length xs"
  shows "fst (predict ext s steps last_window exog True) = fst (predict_013 ext s steps last_window exog) \<and>
         recursive_predict ext s steps w exog NoResiduals rng
           = map_sum id (\<lambda>p. (p, rng)) (recursive_predict_013 s steps w exog)"
proof
  note e = create_predict_inputs_013_eq[OF assms, of steps last_window exog]
  obtain r1 s1 where a: "create_predict_inputs ext s steps last_window exog False True False True = (r1, s1)"
    by (cases "create_predict_inputs ext s steps last_window exog False True False True")
  obtain r2 s2 where b: "create_predict_inputs_013 ext s steps last_window exog = (r2, s2)"
    by (cases "create_predict_inputs_013 ext s steps last_window exog")
  have r: "r2 = r1" using e a b by simp
  show "fst (predict ext s steps last_window exog True) = fst (predict_013 ext s steps last_window exog)"
  proof (cases r1)
    case (Inl err)
    then show ?thesis using a b r by (simp add: predict_def predict_013_def)
  next
    case (Inr v)
    obtain lwv ev where v: "v = (lwv, ev)" by (cases v)
    have s: "s2 = s1" using e a b Inr by simp
    show ?thesis
    proof (cases "recursive_predict_013 s1 steps lwv ev")
      case (Inl err)
      then show ?thesis using a b r Inr v s
        by (simp add: predict_def predict_013_def recursive_predict_013_eq)
    next
      case (Inr p)
      note p = Inr
      have lp: "length p = steps" using p by (rule recursive_predict_013_length)
      show ?thesis
      proof (cases "undifferentiate s1 p")
        case (Inl err)
        then show ?thesis using a b r \<open>r1 = Inr v\<close> v s p
          by (simp add: predict_def predict_013_def recursive_predict_013_eq)
      next
        case (Inr l)
        have "length l = steps" using undifferentiate_length[OF Inr] lp by simp
        then show ?thesis using a b r \<open>r1 = Inr v\<close> v s p Inr
          by (simp add: predict_def predict_013_def recursive_predict_013_eq
                transform_series_inverse with_index_def)
      qed
    qed
  qed
next
  show "recursive_predict ext s steps w exog NoResiduals rng
           = map_sum id (\<lambda>p. (p, rng)) (recursive_predict_013 s steps w exog)"
    by (rule recursive_predict_013_eq)
qed

theorem predict_013_equivalent_witness:
  "init_ok lags3_fitted \<and>
   fst (predict_013 (scenario [0, 1]) lags3_fitted 2 None None) = Inr [Num 9, Num (28 / 3)] \<and>
   fst (predict (scenario [0, 1]) lags3_fitted 2 None None True) = Inr [Num 9, Num (28 / 3)]"
proof -
  have "fst (predict_013 (scenario [0, 1]) lags3_fitted 2 None None) = Inr [Num 9, Num (28 / 3)]"
    by (simp add: predict_013_def create_predict_inputs_013_def
        differentiate_window_def transform_series_def exog_predict_def py_slice_from_def
        py_bound_def recursive_predict_013_def recursive_step_013_def lag_positions_def py_index_def
        py_set_def undifferentiate_def with_index_def mean_row_def Let_def upt_rec
        numeral_2_eq_2 lags3_fitted_simps scenario_simps)
  then show ?thesis
    using predict_013_equivalent[of lags3_fitted "scenario [0, 1]" 2 None None "[]" None]
    by (simp add: lags3_fitted_init_ok scenario_def)
qed

text \<open>
  C5, at a failing input. A forecaster with lags \<open>[1, 2, 3]\<close> and the mean estimator is
  fitted on \<open>y = [0, 0, 0, 30, 12]\<close>; its in-sample predictions are \<open>[0, 10]\<close> and its
  discretizer has three bins with edges \<open>[0, 10/3, 20/3, 10]\<close>. After the fit
  \<open>binner_intervals\<close> lists the bins 0, 1 and 2, but \<open>in_sample_residuals_by_bin_\<close> has
  the keys 0 and 2 only, and a bootstrap step whose prediction falls into bin 1 raises
  \<open>KeyError\<close>.
\<close>

theorem in_sample_bin_without_residuals:
  "map fst (the (binner_intervals (snd (fit (scenario thirds) lags3 y_short None True True))))
     = [0, 1, 2] \<and>
   in_sample_residuals_by_bin_attr (snd (fit (scenario thirds) lags3 y_short None True True))
     = Some [(0, [Num 30]), (2, [Num 2])] \<and>
   step_residual (scenario thirds) (snd (fit (scenario thirds) lags3 y_short None True True))
       (BinResiduals [(0, [Num 30]), (2, [Num 2])]) (Some 0) 0 (Num 5)
     = Inl KeyError"
  unfolding fit_y_short
  by (simp add: bin_intervals_def thirds_def step_residual_def scenario_def ordinal_bin_def upt_rec)

text \<open>
  C6. The claim caps each per-bin buffer at 200 values and each flat buffer at 1000, as
  the class docstring does (\<open>in_sample_residuals_\<close>: only stored up to 1000 values).
  \<open>_binning_in_sample_residuals\<close> caps the bins only and stores their concatenation:
  when the training predictions put 200 residuals in each of six bins, every per-bin
  buffer holds its 200 values and \<open>in_sample_residuals_\<close> holds all 1200 of them.
\<close>

theorem flat_pool_exceeds_cap:
  "map_option (map (\<lambda>p. (fst p, length (snd p))))
     (in_sample_residuals_by_bin_attr
        (snd (binning_in_sample_residuals (scenario [0, 1, 2, 3, 4, 5, 6]) lags3
                blocks6 blocks6 95123)))
   = Some [(0, 200), (1, 200), (2, 200), (3, 200), (4, 200), (5, 200)] \<and>
   map_option length
     (in_sample_residuals_attr
        (snd (binning_in_sample_residuals (scenario [0, 1, 2, 3, 4, 5, 6]) lags3
                blocks6 blocks6 95123)))
   = Some 1200 \<and>
   fst (binning_in_sample_residuals (scenario [0, 1, 2, 3, 4, 5, 6]) lags3
          blocks6 blocks6 95123) = Inr ()"
proof -
  let ?data = "zip (map (ordinal_bin [0, 1, 2, 3, 4, 5, 6]) blocks6)
                   (map (\<lambda>(t, p). num_sub t p) (zip blocks6 blocks6))"
  obtain d' where d: "cap_bins (scenario [0, 1, 2, 3, 4, 5, 6]) 95123 (groupby_bin ?data) = Inr d'"
    "list_all2 cap_rel (groupby_bin ?data) d'" using cap_bins_ok by blast
  have "\<forall>p \<in> set (groupby_bin ?data). length (snd p) \<le> 200"
    by (rule groupby_bin_small) (simp add: blocks6_groups)
  then have e: "d' = groupby_bin ?data" using d(2) cap_rel_small by blast
  have g: "map (\<lambda>p. (fst p, length (snd p))) (groupby_bin ?data)
           = [(0, 200), (1, 200), (2, 200), (3, 200), (4, 200), (5, 200)]"
    by (rule blocks6_bins)
  then have ne: "groupby_bin ?data \<noteq> []" by auto
  have k: "kbins_fit (scenario [0, 1, 2, 3, 4, 5, 6]) blocks6 = [0, 1, 2, 3, 4, 5, 6]"
    "kbins_transform (scenario [0, 1, 2, 3, 4, 5, 6]) = ordinal_bin"
    by (simp_all add: scenario_def)
  have l: "length ?data = 1200" by (simp add: blocks6_def)
  have b: "blocks6 \<noteq> []" by (simp add: blocks6_def)
  have r: "binning_in_sample_residuals (scenario [0, 1, 2, 3, 4, 5, 6]) lags3 blocks6 blocks6 95123
        = (Inr (), lags3\<lparr>binner := Some [0, 1, 2, 3, 4, 5, 6],
                          in_sample_residuals_by_bin_attr := Some (groupby_bin ?data),
                          in_sample_residuals_attr := Some (concat (map snd (groupby_bin ?data))),
                          binner_intervals := Some (bin_intervals [0, 1, 2, 3, 4, 5, 6])\<rparr>)"
    unfolding binning_in_sample_residuals_def Let_def k using d(1) e ne b
    by (simp add: np_concatenate_def)
  show ?thesis unfolding r using g groupby_bin_total[of ?data] l by simp
qed

text \<open>
  C7 (as amended). After \<open>_binning_in_sample_residuals\<close> returns, and so after every
  \<open>fit\<close> that stores in-sample residuals, \<open>binner_intervals\<close> has one entry per bin
  \<open>i\<close> of the fitted discretizer, the pair \<open>(bin_edges[i], bin_edges[i + 1])\<close>; this
  includes the last bin, whose upper bound is the last edge and never \<open>None\<close>.
\<close>

theorem binner_intervals_upper_edges:
  "(binning_in_sample_residuals ext s y_true y_pred seed = (Inr (), s1) \<longrightarrow>
      binner s1 = Some (kbins_fit ext y_pred) \<and>
      binner_intervals s1 = Some (closed_intervals (kbins_fit ext y_pred))) \<and>
   (fit ext s y exog slw True = (Inr (), s2) \<longrightarrow>
      (\<exists>yp. binner s2 = Some (kbins_fit ext yp) \<and>
            binner_intervals s2 = Some (closed_intervals (kbins_fit ext yp))))"
proof (intro conjI impI)
  assume a: "binning_in_sample_residuals ext s y_true y_pred seed = (Inr (), s1)"
  from a obtain capped where
    "s1 = s\<lparr>binner := Some (kbins_fit ext y_pred),
            in_sample_residuals_by_bin_attr := Some capped,
            in_sample_residuals_attr := Some (concat (map snd capped)),
            binner_intervals := Some (bin_intervals (kbins_fit ext y_pred))\<rparr>"
    by (rule binning_Inr) blast
  then show "binner s1 = Some (kbins_fit ext y_pred)"
    "binner_intervals s1 = Some (closed_intervals (kbins_fit ext y_pred))"
    by (simp_all add: bin_intervals_closed)
next
  assume "fit ext s y exog slw True = (Inr (), s2)"
  then obtain s' yt yp s3 where f:
    "binning_in_sample_residuals ext s' yt yp 95123 = (Inr (), s3)"
    "binner s2 = binner s3" "binner_intervals s2 = binner_intervals s3"
    by (rule fit_binning) blast
  from f(1) obtain capped where
    "s3 = s'\<lparr>binner := Some (kbins_fit ext yp),
            in_sample_residuals_by_bin_attr := Some capped,
            in_sample_residuals_attr := Some (concat (map snd capped)),
            binner_intervals := Some (bin_intervals (kbins_fit ext yp))\<rparr>"
    by (rule binning_Inr) blast
  then show "\<exists>yp. binner s2 = Some (kbins_fit ext yp) \<and>
            binner_intervals s2 = Some (closed_intervals (kbins_fit ext yp))"
    using f(2,3) by (auto simp: bin_intervals_closed)
qed

theorem binner_intervals_upper_edges_witness:
  "fit (scenario [0, 1]) lags3 y10 None True True = (Inr (), lags3_fitted) \<and>
   binner_intervals lags3_fitted = Some [(0, 0, Some 1)]"
  using binner_intervals_upper_edges[of "scenario [0, 1]" lags3 "[]" "[]" 0 lags3 y10 None True lags3_fitted]
  by (simp add: lags3_fitted_simps closed_intervals_def scenario_kbins)

theorem binner_intervals_counterexample:
  "binner_intervals (snd (fit (scenario thirds) lags3 y_short None True True))
   = Some [(0, 0, Some (10 / 3)), (1, 10 / 3, Some (20 / 3)), (2, 20 / 3, Some 10)]"
  unfolding fit_y_short
  by (simp add: bin_intervals_def thirds_def upt_rec)

end
